theory Spec2Isabelle
  imports Main "HOL-Library.AList"
begin

section \<open>ssbh: a Singularity sandbox build helper\<close>

text \<open>
  A shallow embedding of \<^verbatim>\<open>ssbh.py\<close>. Python strings are \<^typ>\<open>string\<close>
  (the model covers ASCII text: \<^verbatim>\<open>upper\<close> and \<^verbatim>\<open>lower\<close> change the 26
  letters only). Every exception is a value of \<open>error\<close>; a function that can raise
  returns \<open>error + 'a\<close>, and one that also changes the host returns the changed
  host beside it. Standard output is not part of the state.
\<close>

subsection \<open>Exceptions\<close>

text \<open>
  The exceptions the program raises itself carry their message. The ones raised by the
  operating system or a library carry the path or key they are about, or a fixed text,
  instead of Python's message text.
\<close>

datatype error =
    FileExistsError string
  | FileNotFoundError string
  | NotADirectoryError string
  | IsADirectoryError string
  | OSError string
  | RuntimeError string
  | AttributeError string
  | KeyError string
  | TypeError string
  | ValueError string
  | CsvError string
  | OverflowError string
  | SameFileError string
  | JSONDecodeError
  | CalledProcessError "string list"

subsection \<open>Strings\<close>

text \<open>\<^verbatim>\<open>s.split(sep)\<close> for a one-character separator: never an empty list.\<close>

fun split_on :: "char \<Rightarrow> string \<Rightarrow> string list" where
  "split_on sep [] = [[]]"
| "split_on sep (c # cs) =
     (if c = sep then [] # split_on sep cs
      else (case split_on sep cs of
              [] \<Rightarrow> [[c]]
            | f # fs \<Rightarrow> (c # f) # fs))"

text \<open>
  \<^verbatim>\<open>fh.readline()\<close> on a file opened in text mode, at its start: the text up to and
  including the first line end, where universal newlines turn \<^verbatim>\<open>\r\<close> and
  \<^verbatim>\<open>\r\n\<close> into \<^verbatim>\<open>\n\<close>.
\<close>

fun readline :: "string \<Rightarrow> string" where
  "readline [] = []"
| "readline (c # cs) =
     (if c = CHR 0x0A \<or> c = CHR 0x0D then [CHR 0x0A] else c # readline cs)"

definition is_digit :: "char \<Rightarrow> bool" where
  "is_digit c = (c \<in> set ''0123456789'')"

text \<open>
  A Python \<^verbatim>\<open>set\<close> of strings, kept as the list of its members without repetition,
  in the order they were added. Python leaves the order of iteration open; the loops
  that iterate over the set are shown below to depend on its members only.
\<close>

definition set_add :: "string \<Rightarrow> string list \<Rightarrow> string list" where
  "set_add x s = (if x \<in> set s then s else s @ [x])"

subsection \<open>ps_bins\<close>

text \<open>
  The directory that \<^verbatim>\<open>ps_bins(path)\<close> scans, as the scan meets it: the entries of
  \<^verbatim>\<open>path\<close> in the order the directory listing gives them. An entry is a directory or
  something else; a directory has an entry \<^verbatim>\<open>cmdline\<close> or not when
  \<^verbatim>\<open>glob\<close> looks for it; and \<open>Present r\<close> records what \<^verbatim>\<open>open(p)\<close> and
  the read give when the loop body runs right after: the file's text, or the
  exception raised when the record is gone or unreadable by then.
\<close>

datatype cmdline = Absent | Present "error + string"

datatype proc_entry = NotDir | ProcDir cmdline

type_synonym procfs = "(string \<times> proc_entry) list"

text \<open>
  \<^verbatim>\<open>Path(path).glob('[0-9]*/cmdline')\<close>: the shell pattern \<^verbatim>\<open>[0-9]*\<close> matches a
  name whose first character is a digit, whatever follows; the entry has to be a
  directory that holds \<^verbatim>\<open>cmdline\<close>.
\<close>

fun glob_name :: "string \<Rightarrow> bool" where
  "glob_name [] = False"
| "glob_name (c # cs) = is_digit c"

fun glob_cmdline :: "string \<times> proc_entry \<Rightarrow> (error + string) option" where
  "glob_cmdline (name, ProcDir (Present r)) = (if glob_name name then Some r else None)"
| "glob_cmdline (name, ProcDir Absent) = None"
| "glob_cmdline (name, NotDir) = None"

text \<open>The loop body: \<^verbatim>\<open>cmdline = fh.readline().split('\0')\<close>, then \<^verbatim>\<open>cmdline[0]\<close>.\<close>

definition first_field :: "string \<Rightarrow> string" where
  "first_field text = (case split_on (CHR 0x00) (readline text) of [] \<Rightarrow> [] | f # fs \<Rightarrow> f)"

fun ps_scan :: "procfs \<Rightarrow> string list \<Rightarrow> error + string list" where
  "ps_scan [] s = Inr s"
| "ps_scan (e # es) s =
     (case glob_cmdline e of
        None \<Rightarrow> ps_scan es s
      | Some (Inl err) \<Rightarrow> Inl err
      | Some (Inr text) \<Rightarrow>
          (if first_field text \<noteq> [] then ps_scan es (set_add (first_field text) s)
           else ps_scan es s))"

definition ps_bins :: "procfs \<Rightarrow> error + string list" where
  "ps_bins root = ps_scan root []"

subsection \<open>More of Python's string methods\<close>

definition is_space :: "char \<Rightarrow> bool" where
  "is_space c = (c \<in> {CHR 0x20, CHR 0x09, CHR 0x0A, CHR 0x0B, CHR 0x0C, CHR 0x0D,
                        CHR 0x1C, CHR 0x1D, CHR 0x1E, CHR 0x1F})"

text \<open>\<^verbatim>\<open>s.split()\<close>: the words between runs of white space; \<open>w\<close> is the word being read.\<close>

fun split_ws :: "string \<Rightarrow> string \<Rightarrow> string list" where
  "split_ws [] w = (if w = [] then [] else [w])"
| "split_ws (c # cs) w =
     (if is_space c then (if w = [] then split_ws cs [] else w # split_ws cs [])
      else split_ws cs (w @ [c]))"

definition py_split :: "string \<Rightarrow> string list" where
  "py_split s = split_ws s []"

definition startswith :: "string \<Rightarrow> string \<Rightarrow> bool" where
  "startswith s pre = (take (length pre) s = pre)"

definition endswith :: "string \<Rightarrow> string \<Rightarrow> bool" where
  "endswith s suf = (length suf \<le> length s \<and> drop (length s - length suf) s = suf)"

text \<open>\<^verbatim>\<open>sub in s\<close> for strings.\<close>

fun contains :: "string \<Rightarrow> string \<Rightarrow> bool" where
  "contains [] sub = (sub = [])"
| "contains (c # cs) sub = (startswith (c # cs) sub \<or> contains cs sub)"

definition lower_char :: "char \<Rightarrow> char" where
  "lower_char c =
     (case map_of (zip ''ABCDEFGHIJKLMNOPQRSTUVWXYZ'' ''abcdefghijklmnopqrstuvwxyz'') c of
        Some d \<Rightarrow> d
      | None \<Rightarrow> c)"

definition upper_char :: "char \<Rightarrow> char" where
  "upper_char c =
     (case map_of (zip ''abcdefghijklmnopqrstuvwxyz'' ''ABCDEFGHIJKLMNOPQRSTUVWXYZ'') c of
        Some d \<Rightarrow> d
      | None \<Rightarrow> c)"

definition lower :: "string \<Rightarrow> string" where
  "lower s = map lower_char s"

definition upper :: "string \<Rightarrow> string" where
  "upper s = map upper_char s"

text \<open>\<^verbatim>\<open>sep.join(xs)\<close>.\<close>

fun join :: "string \<Rightarrow> string list \<Rightarrow> string" where
  "join sep [] = []"
| "join sep [x] = x"
| "join sep (x # y # ys) = x @ sep @ join sep (y # ys)"

subsection \<open>Paths and the file system\<close>

text \<open>
  A path is the list of its components as \<^verbatim>\<open>pathlib\<close> keeps them: no empty one and
  no \<^verbatim>\<open>.\<close>, while \<^verbatim>\<open>..\<close> stays a component. The paths of the model are absolute,
  the root the empty list. The file system maps a location, which is a path without
  \<^verbatim>\<open>..\<close>, to what is there: a regular file with its text and mode bits, or a
  directory. The root is always a directory. Symbolic links, owners and access rights
  are not modelled.
\<close>

type_synonym path = "string list"

datatype node = File string nat | Dir

type_synonym fs = "path \<Rightarrow> node option"

text \<open>The components of a path string as \<^verbatim>\<open>pathlib\<close> keeps them: no empty one, no \<^verbatim>\<open>.\<close>.\<close>

definition parts :: "string \<Rightarrow> string list" where
  "parts s = filter (\<lambda>c. c \<noteq> [] \<and> c \<noteq> ''.'') (split_on (CHR ''/'') s)"

definition is_abs :: "string \<Rightarrow> bool" where
  "is_abs s = startswith s ''/''"

text \<open>\<^verbatim>\<open>Path(base, s)\<close> and \<^verbatim>\<open>base.joinpath(s)\<close>: an absolute \<open>s\<close> replaces the base.\<close>

definition joinpath :: "path \<Rightarrow> string \<Rightarrow> path" where
  "joinpath base s = (if is_abs s then parts s else base @ parts s)"

text \<open>\<^verbatim>\<open>str(p)\<close>.\<close>

definition path_str :: "path \<Rightarrow> string" where
  "path_str p = (if p = [] then ''/'' else concat (map (\<lambda>c. CHR ''/'' # c) p))"

text \<open>\<^verbatim>\<open>p.parent\<close>: the root is its own parent.\<close>

definition parent :: "path \<Rightarrow> path" where
  "parent p = butlast p"

fun dotdot :: "path \<Rightarrow> string list \<Rightarrow> path" where
  "dotdot acc [] = acc"
| "dotdot acc (c # cs) =
     (if c = ''..'' then dotdot (butlast acc) cs else dotdot (acc @ [c]) cs)"

text \<open>
  \<^verbatim>\<open>Path(s).resolve()\<close> in the working directory \<open>wd\<close>: without symbolic links, the
  components \<^verbatim>\<open>..\<close> are taken out of the text of the path.
\<close>

definition resolve :: "path \<Rightarrow> string \<Rightarrow> path" where
  "resolve wd s = dotdot [] ((if is_abs s then [] else wd) @ parts s)"

definition node_at :: "fs \<Rightarrow> path \<Rightarrow> node option" where
  "node_at f q = (if q = [] then Some Dir else f q)"

text \<open>
  How the operating system follows a path, component by component, from the directory at
  the location \<open>cur\<close>: \<^verbatim>\<open>..\<close> leads to the parent, and every component but the last
  has to be a directory. The result is the location the path names, whether or not
  something is there; \<open>whole\<close> is the path the exception reports.
\<close>

fun walk :: "fs \<Rightarrow> path \<Rightarrow> path \<Rightarrow> string list \<Rightarrow> error + path" where
  "walk f whole cur [] = Inr cur"
| "walk f whole cur (c # cs) =
     (if c = ''..'' then walk f whole (butlast cur) cs
      else if cs = [] then Inr (cur @ [c])
      else (case f (cur @ [c]) of
              Some Dir \<Rightarrow> walk f whole (cur @ [c]) cs
            | Some (File d m) \<Rightarrow> Inl (NotADirectoryError (path_str whole))
            | None \<Rightarrow> Inl (FileNotFoundError (path_str whole))))"

definition locate :: "fs \<Rightarrow> path \<Rightarrow> error + path" where
  "locate f p = walk f p [] p"

text \<open>\<^verbatim>\<open>os.stat(p)\<close>, as far as the model goes: what is at the path.\<close>

definition stat :: "fs \<Rightarrow> path \<Rightarrow> error + node" where
  "stat f p =
     (case locate f p of
        Inl e \<Rightarrow> Inl e
      | Inr q \<Rightarrow>
          (case node_at f q of
             Some n \<Rightarrow> Inr n
           | None \<Rightarrow> Inl (FileNotFoundError (path_str p))))"

text \<open>\<^verbatim>\<open>p.exists()\<close>: false when \<^verbatim>\<open>stat\<close> raises.\<close>

definition exists :: "fs \<Rightarrow> path \<Rightarrow> bool" where
  "exists f p = (case stat f p of Inl e \<Rightarrow> False | Inr n \<Rightarrow> True)"

text \<open>
  \<^verbatim>\<open>open(p, 'w')\<close>, \<^verbatim>\<open>fh.write(data)\<close> and the close: an existing file is
  truncated and keeps its mode; a new file needs its directory and gets the mode
  \<open>cmode\<close> (\<^verbatim>\<open>0o666\<close> less the umask).
\<close>

definition write_file :: "nat \<Rightarrow> path \<Rightarrow> string \<Rightarrow> fs \<Rightarrow> error + fs" where
  "write_file cmode p data f =
     (case locate f p of
        Inl e \<Rightarrow> Inl e
      | Inr q \<Rightarrow>
          (case node_at f q of
             Some Dir \<Rightarrow> Inl (IsADirectoryError (path_str p))
           | Some (File old m) \<Rightarrow> Inr (f(q \<mapsto> File data m))
           | None \<Rightarrow> Inr (f(q \<mapsto> File data cmode))))"

text \<open>\<^verbatim>\<open>open(p)\<close> and reading all of it.\<close>

definition read_file :: "path \<Rightarrow> fs \<Rightarrow> error + string" where
  "read_file p f =
     (case stat f p of
        Inl e \<Rightarrow> Inl e
      | Inr (File data m) \<Rightarrow> Inr data
      | Inr Dir \<Rightarrow> Inl (IsADirectoryError (path_str p)))"

text \<open>
  \<^verbatim>\<open>p.chmod(perms)\<close>: \<^verbatim>\<open>os.chmod\<close> takes the mode as a C \<^verbatim>\<open>int\<close> and raises
  \<^verbatim>\<open>OverflowError\<close> for any other number before it looks at the path; the system call
  keeps the twelve mode bits. A directory carries no mode in the model.
\<close>

definition chmod :: "path \<Rightarrow> int \<Rightarrow> fs \<Rightarrow> error + fs" where
  "chmod p perms f =
     (if perms < - 2147483648 \<or> 2147483647 < perms
      then Inl (OverflowError ''Python int too large to convert to C int'')
      else (case locate f p of
              Inl e \<Rightarrow> Inl e
            | Inr q \<Rightarrow>
                (case node_at f q of
                   Some (File data m) \<Rightarrow> Inr (f(q \<mapsto> File data (nat (perms mod 4096))))
                 | Some Dir \<Rightarrow> Inr f
                 | None \<Rightarrow> Inl (FileNotFoundError (path_str p)))))"

text \<open>\<^verbatim>\<open>p.unlink(missing_ok=True)\<close>: only \<^verbatim>\<open>FileNotFoundError\<close> is passed over.\<close>

fun missing :: "error \<Rightarrow> bool" where
  "missing (FileNotFoundError s) = True"
| "missing e = False"

definition unlink_missing_ok :: "path \<Rightarrow> fs \<Rightarrow> error + fs" where
  "unlink_missing_ok p f =
     (case locate f p of
        Inl e \<Rightarrow> (if missing e then Inr f else Inl e)
      | Inr q \<Rightarrow>
          (case node_at f q of
             Some (File data m) \<Rightarrow> Inr (f(q := None))
           | Some Dir \<Rightarrow> Inl (IsADirectoryError (path_str p))
           | None \<Rightarrow> Inr f))"

text \<open>\<^verbatim>\<open>p.mkdir(exist_ok=True)\<close>.\<close>

definition mkdir_exist_ok :: "path \<Rightarrow> fs \<Rightarrow> error + fs" where
  "mkdir_exist_ok p f =
     (case locate f p of
        Inl e \<Rightarrow> Inl e
      | Inr q \<Rightarrow>
          (case node_at f q of
             Some Dir \<Rightarrow> Inr f
           | Some (File data m) \<Rightarrow> Inl (FileExistsError (path_str p))
           | None \<Rightarrow> Inr (f(q \<mapsto> Dir))))"

text \<open>
  \<^verbatim>\<open>shutil.copymode(src, dst)\<close>, and \<^verbatim>\<open>shutil.copy(src, dst)\<close>: into \<open>dst\<close> when
  that is a directory; the two must not be the same file; the text is copied, then the
  mode bits.
\<close>

definition copymode :: "path \<Rightarrow> path \<Rightarrow> fs \<Rightarrow> error + fs" where
  "copymode src dst f =
     (case stat f src of
        Inl e \<Rightarrow> Inl e
      | Inr (File data m) \<Rightarrow> chmod dst (int m) f
      | Inr Dir \<Rightarrow> Inr f)"

definition copy :: "nat \<Rightarrow> path \<Rightarrow> path \<Rightarrow> fs \<Rightarrow> error + fs" where
  "copy cmode src dst f =
     (let target = (if stat f dst = Inr Dir \<and> src \<noteq> [] then dst @ [last src] else dst)
      in if exists f src \<and> exists f target \<and> locate f src = locate f target
         then Inl (SameFileError (path_str src))
         else (case read_file src f of
                 Inl e \<Rightarrow> Inl e
               | Inr data \<Rightarrow>
                   (case write_file cmode target data f of
                      Inl e \<Rightarrow> Inl e
                    | Inr f1 \<Rightarrow> copymode src target f1)))"

subsection \<open>The host\<close>

text \<open>
  What the program reads of and changes on the machine it runs on. \<open>tool\<close> stands for
  \<^verbatim>\<open>subprocess.run(cmd, cwd=cwd, check=True)\<close>: what running the command does to the
  file system, and the exception when it cannot be started or exits non-zero. \<open>ran\<close>
  is the log of the commands started, oldest first.
\<close>

record host =
  files :: fs
  procs :: procfs
  user :: string
  cwd :: path
  which_singularity :: "string option"
  arch_bits :: string
  machine :: string
  cmode :: nat
  tool :: "string list \<Rightarrow> path \<Rightarrow> fs \<Rightarrow> error option \<times> fs"
  ran :: "(string list \<times> path) list"

text \<open>A file system step run on the host: the host is unchanged when it raises.\<close>

definition on_files :: "(fs \<Rightarrow> error + fs) \<Rightarrow> host \<Rightarrow> (error + unit) \<times> host" where
  "on_files step h =
     (case step (files h) of
        Inl e \<Rightarrow> (Inl e, h)
      | Inr f \<Rightarrow> (Inr (), h\<lparr>files := f\<rparr>))"

text \<open>Sequencing: the second step runs only when the first did not raise.\<close>

definition andthen ::
  "(host \<Rightarrow> (error + 'a) \<times> host) \<Rightarrow> ('a \<Rightarrow> host \<Rightarrow> (error + 'b) \<times> host) \<Rightarrow>
   host \<Rightarrow> (error + 'b) \<times> host" where
  "andthen m k h =
     (case m h of
        (Inl e, h1) \<Rightarrow> (Inl e, h1)
      | (Inr x, h1) \<Rightarrow> k x h1)"

subsection \<open>Singularity\<close>

datatype distro = Generic | Alpine | Fedora | Ubuntu

text \<open>
  The object: the attributes \<^verbatim>\<open>Singularity.__init__\<close> and
  \<^verbatim>\<open>DistroDocker.__init__\<close> set, and the class that decides which
  \<^verbatim>\<open>update_distro\<close>, \<^verbatim>\<open>upgrade_distro\<close> and \<^verbatim>\<open>install_distro\<close> run.
\<close>

record sandbox =
  image_path :: path
  prog :: string
  dd_editor :: string
  dd_editor_args :: string
  dd_updated :: bool
  dd_pkgs :: "string list"
  distro :: distro

text \<open>
  \<^verbatim>\<open>Singularity.__init__\<close>: the path, resolved, and the two refusals. The result is
  the pair \<open>(image_path, prog)\<close>.
\<close>

definition Singularity_init :: "string \<Rightarrow> host \<Rightarrow> error + path \<times> string" where
  "Singularity_init ip h =
     (let p = (if CHR ''/'' \<notin> set ip then dotdot [] (joinpath (cwd h) ip)
               else resolve (cwd h) ip)
      in if exists (files h) p
         then Inl (FileExistsError (''refusing to overwrite '' @ [CHR 0x27] @ path_str p @ [CHR 0x27]))
         else (case which_singularity h of
                 None \<Rightarrow> Inl (FileNotFoundError
                           ([CHR 0x27] @ ''singularity'' @ [CHR 0x27] @ '' binary not in PATH''))
               | Some w \<Rightarrow> Inr (p, w)))"

text \<open>\<^verbatim>\<open>_run\<close>.\<close>

definition run_cmd :: "string list \<Rightarrow> path \<Rightarrow> host \<Rightarrow> (error + unit) \<times> host" where
  "run_cmd cmd wd h =
     (case tool h cmd wd (files h) of
        (None, f) \<Rightarrow> (Inr (), h\<lparr>files := f, ran := ran h @ [(cmd, wd)]\<rparr>)
      | (Some e, f) \<Rightarrow> (Inl e, h\<lparr>files := f, ran := ran h @ [(cmd, wd)]\<rparr>))"

definition build :: "sandbox \<Rightarrow> string \<Rightarrow> host \<Rightarrow> (error + unit) \<times> host" where
  "build self spec h =
     run_cmd [prog self, ''build'', ''--sandbox'', ''--fix-perms'',
              path_str (image_path self), spec]
       (parent (image_path self)) h"

definition localtime :: "sandbox \<Rightarrow> host \<Rightarrow> (error + unit) \<times> host" where
  "localtime self =
     andthen (on_files (unlink_missing_ok (joinpath (image_path self) ''etc/localtime'')))
       (\<lambda>u h. andthen
          (on_files (copy (cmode h) [''etc'', ''localtime'']
                       (joinpath (image_path self) ''etc/localtime'')))
          (\<lambda>u. on_files (copymode [''etc'', ''localtime'']
                       (joinpath (image_path self) ''etc/localtime''))) h)"

datatype filedata = Text string | Lines "string list"

text \<open>
  \<^verbatim>\<open>mkfile\<close>; \<^verbatim>\<open>perms\<close> is a Python integer and defaults to \<^verbatim>\<open>0o644\<close>, which
  is 420.
\<close>

definition file_text :: "filedata \<Rightarrow> string" where
  "file_text data = (case data of Lines ls \<Rightarrow> join [CHR 0x0A] ls @ [CHR 0x0A] | Text s \<Rightarrow> s)"

definition mkfile :: "sandbox \<Rightarrow> string \<Rightarrow> filedata \<Rightarrow> int \<Rightarrow> host \<Rightarrow> (error + unit) \<times> host" where
  "mkfile self rel_name data perms h =
     (let p = joinpath (image_path self) rel_name
      in if exists (files h) p
         then (Inl (FileExistsError
                 (''refusing to overwrite '' @ [CHR 0x27] @ path_str p @ [CHR 0x27])), h)
         else andthen (on_files (write_file (cmode h) p (file_text data)))
                (\<lambda>u. on_files (chmod p perms)) h)"

text \<open>A step that raises nothing and changes nothing.\<close>

definition ok :: "'a \<Rightarrow> host \<Rightarrow> (error + 'a) \<times> host" where
  "ok x h = (Inr x, h)"

datatype cmdarg = CmdStr string | CmdList "string list"

text \<open>\<^verbatim>\<open>exec(cmd, admin)\<close>; the working directory is the root.\<close>

definition exec :: "sandbox \<Rightarrow> cmdarg \<Rightarrow> bool \<Rightarrow> host \<Rightarrow> (error + unit) \<times> host" where
  "exec self cmd admin h =
     (let c = (case cmd of CmdStr s \<Rightarrow> py_split s | CmdList l \<Rightarrow> l);
          pre = [prog self, ''exec''] @ (if admin then [''--fakeroot'', ''--writable''] else [])
      in run_cmd (pre @ [path_str (image_path self)] @ c) [] h)"

text \<open>\<^verbatim>\<open>Singularity.mkenv\<close>; \<^verbatim>\<open>0o755\<close> is 493.\<close>

definition Singularity_mkenv ::
  "sandbox \<Rightarrow> string \<Rightarrow> string \<Rightarrow> string \<Rightarrow> string \<Rightarrow> host \<Rightarrow> (error + unit) \<times> host" where
  "Singularity_mkenv self name tag editor editor_args h =
     (let data = [''#!/bin/sh'',
                  ''export EDITOR='' @ [CHR 0x27] @ editor @ [CHR 0x27],
                  ''export EDITOR_ARGUMENTS='' @ [CHR 0x27] @ editor_args @ [CHR 0x27],
                  ''prompt='' @ [CHR 0x27] @ ''#'' @ [CHR 0x27],
                  ''grep -q '' @ [CHR 0x27] @ ''^overlay /'' @ [CHR 0x27]
                    @ '' /proc/mounts && prompt='' @ [CHR 0x27] @ ''$'' @ [CHR 0x27]];
          ps1 = ''export PS1='' @ [CHR 0x22] @ ''('' @ name;
          ps2 = (if tag \<noteq> [] then ps1 @ '':'' @ tag else ps1);
          ps3 = ps2 @ '') $USER@$SINGULARITY_NAME '' @ [CHR 0x5C] @ ''w $prompt '' @ [CHR 0x22]
      in mkfile self ''.singularity.d/env/99-zzzzzzzz-final-env.sh'' (Lines (data @ [ps3])) 493 h)"

definition helpers :: "sandbox \<Rightarrow> host \<Rightarrow> (error + unit) \<times> host" where
  "helpers self =
     andthen (mkfile self ''usr/local/bin/ll''
                (Lines [''#!/bin/sh'',
                        ''/bin/ls --color=auto -lFh '' @ [CHR 0x22] @ ''$@'' @ [CHR 0x22]]) 493)
       (\<lambda>u. andthen (mkfile self ''usr/local/bin/la''
                (Lines [''#!/bin/sh'',
                        ''/bin/ls --color=auto -lFha '' @ [CHR 0x22] @ ''$@'' @ [CHR 0x22]]) 493)
       (\<lambda>u. mkfile self ''usr/local/bin/e''
                (Lines [''#!/bin/sh'',
                        ''test -z '' @ [CHR 0x22] @ ''$EDITOR'' @ [CHR 0x22] @ '' && EDITOR=''
                          @ [CHR 0x22] @ ''vi'' @ [CHR 0x22],
                        ''$EDITOR $EDITOR_ARGUMENTS '' @ [CHR 0x22] @ ''$@'' @ [CHR 0x22]]) 493))"

subsection \<open>OSrelease\<close>

text \<open>
  Iterating over a file opened in text mode: the lines, each with its \<^verbatim>\<open>\n\<close> (the
  last one may lack it), after universal newlines turned \<^verbatim>\<open>\r\<close> and \<^verbatim>\<open>\r\n\<close> into
  \<^verbatim>\<open>\n\<close>.
\<close>

fun universal_newlines :: "string \<Rightarrow> string" where
  "universal_newlines [] = []"
| "universal_newlines [c] = (if c = CHR 0x0D then [CHR 0x0A] else [c])"
| "universal_newlines (c # d # cs) =
     (if c = CHR 0x0D \<and> d = CHR 0x0A then CHR 0x0A # universal_newlines cs
      else if c = CHR 0x0D then CHR 0x0A # universal_newlines (d # cs)
      else c # universal_newlines (d # cs))"

fun keep_lines :: "string \<Rightarrow> string list" where
  "keep_lines [] = []"
| "keep_lines (c # cs) =
     (if c = CHR 0x0A then [c] # keep_lines cs
      else (case keep_lines cs of
              [] \<Rightarrow> [[c]]
            | l # ls \<Rightarrow> (c # l) # ls))"

definition file_lines :: "string \<Rightarrow> string list" where
  "file_lines s = keep_lines (universal_newlines s)"

text \<open>
  \<^verbatim>\<open>csv.reader(fh, delimiter="=")\<close>: the reader of CPython's \<^verbatim>\<open>_csv\<close> module with
  the default dialect, where the quote character is \<^verbatim>\<open>"\<close>, a doubled quote inside a
  quoted field stands for one, no escape character is set, and the reader is not strict.
  The two states for an escape character cannot be reached and are left out. A field
  cannot grow beyond \<open>field_limit\<close> characters.
\<close>

datatype csv_state =
  START_RECORD | START_FIELD | IN_FIELD | IN_QUOTED_FIELD | QUOTE_IN_QUOTED_FIELD | EAT_CRNL

record reader =
  cstate :: csv_state
  cfields :: "string list"
  cfield :: string

definition field_limit :: nat where
  "field_limit = 131072"

definition delimiter :: char where
  "delimiter = CHR ''=''"

definition quotechar :: char where
  "quotechar = CHR 0x22"

definition parse_reset :: reader where
  "parse_reset = \<lparr>cstate = START_RECORD, cfields = [], cfield = []\<rparr>"

definition parse_save_field :: "reader \<Rightarrow> reader" where
  "parse_save_field r = r\<lparr>cfields := cfields r @ [cfield r], cfield := []\<rparr>"

definition parse_add_char :: "char \<Rightarrow> reader \<Rightarrow> error + reader" where
  "parse_add_char c r =
     (if length (cfield r) \<ge> field_limit
      then Inl (CsvError ''field larger than field limit (131072)'')
      else Inr (r\<lparr>cfield := cfield r @ [c]\<rparr>))"

definition is_nl :: "char \<Rightarrow> bool" where
  "is_nl c = (c = CHR 0x0A \<or> c = CHR 0x0D)"

text \<open>The end of a line, which the reader feeds to the machine after the line's characters.\<close>

definition parse_process_eol :: "reader \<Rightarrow> error + reader" where
  "parse_process_eol r =
     (case cstate r of
        START_RECORD \<Rightarrow> Inr r
      | START_FIELD \<Rightarrow> Inr ((parse_save_field r)\<lparr>cstate := START_RECORD\<rparr>)
      | IN_FIELD \<Rightarrow> Inr ((parse_save_field r)\<lparr>cstate := START_RECORD\<rparr>)
      | IN_QUOTED_FIELD \<Rightarrow> Inr r
      | QUOTE_IN_QUOTED_FIELD \<Rightarrow> Inr ((parse_save_field r)\<lparr>cstate := START_RECORD\<rparr>)
      | EAT_CRNL \<Rightarrow> Inr (r\<lparr>cstate := START_RECORD\<rparr>))"

definition start_field :: "char \<Rightarrow> reader \<Rightarrow> error + reader" where
  "start_field c r =
     (if is_nl c then Inr ((parse_save_field r)\<lparr>cstate := EAT_CRNL\<rparr>)
      else if c = quotechar then Inr (r\<lparr>cstate := IN_QUOTED_FIELD\<rparr>)
      else if c = delimiter then Inr ((parse_save_field r)\<lparr>cstate := START_FIELD\<rparr>)
      else (case parse_add_char c r of
              Inl e \<Rightarrow> Inl e
            | Inr r1 \<Rightarrow> Inr (r1\<lparr>cstate := IN_FIELD\<rparr>)))"

definition parse_process_char :: "char \<Rightarrow> reader \<Rightarrow> error + reader" where
  "parse_process_char c r =
     (case cstate r of
        START_RECORD \<Rightarrow>
          (if is_nl c then Inr (r\<lparr>cstate := EAT_CRNL\<rparr>) else start_field c r)
      | START_FIELD \<Rightarrow> start_field c r
      | IN_FIELD \<Rightarrow>
          (if is_nl c then Inr ((parse_save_field r)\<lparr>cstate := EAT_CRNL\<rparr>)
           else if c = delimiter then Inr ((parse_save_field r)\<lparr>cstate := START_FIELD\<rparr>)
           else parse_add_char c r)
      | IN_QUOTED_FIELD \<Rightarrow>
          (if c = quotechar then Inr (r\<lparr>cstate := QUOTE_IN_QUOTED_FIELD\<rparr>)
           else parse_add_char c r)
      | QUOTE_IN_QUOTED_FIELD \<Rightarrow>
          (if c = quotechar
           then (case parse_add_char c r of
                   Inl e \<Rightarrow> Inl e
                 | Inr r1 \<Rightarrow> Inr (r1\<lparr>cstate := IN_QUOTED_FIELD\<rparr>))
           else if c = delimiter then Inr ((parse_save_field r)\<lparr>cstate := START_FIELD\<rparr>)
           else if is_nl c then Inr ((parse_save_field r)\<lparr>cstate := EAT_CRNL\<rparr>)
           else (case parse_add_char c r of
                   Inl e \<Rightarrow> Inl e
                 | Inr r1 \<Rightarrow> Inr (r1\<lparr>cstate := IN_FIELD\<rparr>)))
      | EAT_CRNL \<Rightarrow>
          (if is_nl c then Inr r
           else Inl (CsvError ''new-line character seen in unquoted field'')))"

fun parse_chars :: "string \<Rightarrow> reader \<Rightarrow> error + reader" where
  "parse_chars [] r = Inr r"
| "parse_chars (c # cs) r =
     (case parse_process_char c r of
        Inl e \<Rightarrow> Inl e
      | Inr r1 \<Rightarrow> parse_chars cs r1)"

text \<open>
  \<^verbatim>\<open>dict(rows)\<close> takes the rows one by one as the reader produces them: each has to
  have two fields, and a key seen again gets the new value at its old place.
\<close>

type_synonym dict = "(string \<times> string) list"

definition dict_add :: "string list \<Rightarrow> dict \<Rightarrow> error + dict" where
  "dict_add row d =
     (case row of
        [k, v] \<Rightarrow> Inr (AList.update k v d)
      | _ \<Rightarrow> Inl (ValueError ''dictionary update sequence element has not length 2''))"

text \<open>
  The reader's loop inside \<^verbatim>\<open>dict(...)\<close>: \<open>r\<close> is the machine within the record
  being read. A line is fed character by character, then its end; the record is
  complete when the machine is back in \<open>START_RECORD\<close>. At the end of the file an
  open quoted field is closed as it stands.
\<close>

fun dict_csv :: "string list \<Rightarrow> reader \<Rightarrow> dict \<Rightarrow> error + dict" where
  "dict_csv [] r d =
     (if cfield r \<noteq> [] \<or> cstate r = IN_QUOTED_FIELD
      then dict_add (cfields (parse_save_field r)) d
      else Inr d)"
| "dict_csv (l # ls) r d =
     (case parse_chars l r of
        Inl e \<Rightarrow> Inl e
      | Inr r1 \<Rightarrow>
          (case parse_process_eol r1 of
             Inl e \<Rightarrow> Inl e
           | Inr r2 \<Rightarrow>
               (if cstate r2 = START_RECORD
                then (case dict_add (cfields r2) d of
                        Inl e \<Rightarrow> Inl e
                      | Inr d1 \<Rightarrow> dict_csv ls parse_reset d1)
                else dict_csv ls r2 d)))"

definition parse_os_release :: "string \<Rightarrow> error + dict" where
  "parse_os_release s = dict_csv (file_lines s) parse_reset []"

record osrelease =
  os_root :: path
  os_case_sensitive :: bool
  os_exact :: bool
  os_fname :: string
  os_data :: dict

text \<open>The loop over the two file names: the first that exists is read, and the loop ends.\<close>

fun OSrelease_files :: "string list \<Rightarrow> osrelease \<Rightarrow> fs \<Rightarrow> error + osrelease" where
  "OSrelease_files [] self f = Inr self"
| "OSrelease_files (fname # fnames) self f =
     (if exists f (joinpath (os_root self) fname)
      then (case read_file (joinpath (os_root self) fname) f of
              Inl e \<Rightarrow> Inl e
            | Inr s \<Rightarrow>
                (case parse_os_release s of
                   Inl e \<Rightarrow> Inl e
                 | Inr d \<Rightarrow>
                     Inr (self\<lparr>os_data := d,
                               os_fname := path_str (joinpath (os_root self) fname)\<rparr>)))
      else OSrelease_files fnames self f)"

definition OSrelease_init :: "path \<Rightarrow> bool \<Rightarrow> bool \<Rightarrow> fs \<Rightarrow> error + osrelease" where
  "OSrelease_init root case_sensitive exact f =
     OSrelease_files [''etc/os-release'', ''usr/lib/os-release'']
       \<lparr>os_root = root, os_case_sensitive = case_sensitive, os_exact = exact, os_fname = [],
        os_data = [(''NAME'', ''Linux''), (''ID'', ''linux''), (''PRETTY_NAME'', ''Linux'')]\<rparr>
       f"

text \<open>\<^verbatim>\<open>file()\<close> and \<^verbatim>\<open>__getattr__(attr)\<close>.\<close>

definition OSrelease_file :: "osrelease \<Rightarrow> string" where
  "OSrelease_file self = os_fname self"

definition OSrelease_getattr :: "osrelease \<Rightarrow> string \<Rightarrow> error + string" where
  "OSrelease_getattr self attr =
     (let a = (if \<not> os_case_sensitive self then upper attr else attr)
      in if os_exact self \<and> a \<notin> fst ` set (os_data self)
         then Inl (AttributeError
                (''module '' @ [CHR 0x27] @ ''OSrelease'' @ [CHR 0x27] @ '' has no attribute ''
                 @ [CHR 0x27] @ a @ [CHR 0x27]))
         else Inr (case map_of (os_data self) a of Some v \<Rightarrow> v | None \<Rightarrow> []))"

text \<open>
  \<^verbatim>\<open>o.attr\<close>, which is \<^verbatim>\<open>getattr(o, attr)\<close>: Python looks the name up on the object
  and its class first and calls \<^verbatim>\<open>__getattr__\<close> only when that finds nothing. The
  lookup finds the five attributes \<^verbatim>\<open>__init__\<close> sets, the two methods, and the names
  the class and \<^verbatim>\<open>object\<close> give every instance (the list is the one of CPython
  3.11). For these the result is the attribute itself, for a method the bound method;
  anything else is a string from \<^verbatim>\<open>__getattr__\<close>.
\<close>

datatype attribute =
    Val string
  | Flag bool
  | Root path
  | Table dict
  | Method string
  | Inherited string

definition object_names :: "string list" where
  "object_names =
     [''__class__'', ''__delattr__'', ''__dict__'', ''__dir__'', ''__doc__'', ''__eq__'',
      ''__format__'', ''__ge__'', ''__getattr__'', ''__getattribute__'', ''__getstate__'',
      ''__gt__'', ''__hash__'', ''__init__'', ''__init_subclass__'', ''__le__'', ''__lt__'',
      ''__module__'', ''__ne__'', ''__new__'', ''__reduce__'', ''__reduce_ex__'', ''__repr__'',
      ''__setattr__'', ''__sizeof__'', ''__str__'', ''__subclasshook__'', ''__weakref__'']"

definition attribute_names :: "string list" where
  "attribute_names =
     [''_root'', ''_case_sensitive'', ''_exact'', ''_fname'', ''_data'', ''file'', ''parms'']
     @ object_names"

definition OSrelease_lookup :: "osrelease \<Rightarrow> string \<Rightarrow> error + attribute" where
  "OSrelease_lookup self attr =
     (if attr = ''_root'' then Inr (Root (os_root self))
      else if attr = ''_case_sensitive'' then Inr (Flag (os_case_sensitive self))
      else if attr = ''_exact'' then Inr (Flag (os_exact self))
      else if attr = ''_fname'' then Inr (Val (os_fname self))
      else if attr = ''_data'' then Inr (Table (os_data self))
      else if attr = ''file'' \<or> attr = ''parms'' then Inr (Method attr)
      else if attr \<in> set object_names then Inr (Inherited attr)
      else (case OSrelease_getattr self attr of
              Inl e \<Rightarrow> Inl e
            | Inr v \<Rightarrow> Inr (Val v)))"

subsection \<open>DistroDocker and the three distributions\<close>

text \<open>
  The methods the subclasses override, chosen by the object's class. \<^verbatim>\<open>Fedora\<close> does
  not override \<^verbatim>\<open>update_distro\<close>.
\<close>

definition update_distro :: "sandbox \<Rightarrow> host \<Rightarrow> (error + unit) \<times> host" where
  "update_distro self =
     (case distro self of
        Generic \<Rightarrow> ok ()
      | Alpine \<Rightarrow> exec self (CmdStr ''apk update'') True
      | Fedora \<Rightarrow> ok ()
      | Ubuntu \<Rightarrow> exec self (CmdStr ''apt -y update'') True)"

definition upgrade_distro :: "sandbox \<Rightarrow> host \<Rightarrow> (error + unit) \<times> host" where
  "upgrade_distro self =
     (case distro self of
        Generic \<Rightarrow> ok ()
      | Alpine \<Rightarrow> exec self (CmdStr ''apk upgrade'') True
      | Fedora \<Rightarrow> exec self (CmdStr ''dnf -y upgrade'') True
      | Ubuntu \<Rightarrow> exec self (CmdStr ''apt -y upgrade'') True)"

definition install_distro :: "sandbox \<Rightarrow> string list \<Rightarrow> host \<Rightarrow> (error + unit) \<times> host" where
  "install_distro self pkg_list =
     (case distro self of
        Generic \<Rightarrow> ok ()
      | Alpine \<Rightarrow> exec self (CmdList ([''apk'', ''add''] @ pkg_list)) True
      | Fedora \<Rightarrow> exec self (CmdList ([''dnf'', ''-y'', ''install''] @ pkg_list)) True
      | Ubuntu \<Rightarrow> exec self (CmdList ([''apt'', ''-y'', ''install''] @ pkg_list)) True)"

text \<open>
  The methods that can change the object return it: \<^verbatim>\<open>update\<close> sets
  \<^verbatim>\<open>_dd_updated\<close> once \<^verbatim>\<open>update_distro\<close> has returned.
\<close>

definition update :: "sandbox \<Rightarrow> host \<Rightarrow> (error + sandbox) \<times> host" where
  "update self =
     (if \<not> dd_updated self
      then andthen (update_distro self) (\<lambda>u. ok (self\<lparr>dd_updated := True\<rparr>))
      else ok self)"

definition upgrade :: "sandbox \<Rightarrow> host \<Rightarrow> (error + sandbox) \<times> host" where
  "upgrade self =
     andthen (update self) (\<lambda>s. andthen (upgrade_distro s) (\<lambda>u. ok s))"

definition install :: "sandbox \<Rightarrow> host \<Rightarrow> (error + sandbox) \<times> host" where
  "install self =
     (if dd_pkgs self \<noteq> []
      then andthen (update self) (\<lambda>s. andthen (install_distro s (dd_pkgs s)) (\<lambda>u. ok s))
      else ok self)"

text \<open>
  \<^verbatim>\<open>DistroDocker.mkenv\<close>: the name and the tag are read back from the sandbox with
  \<^verbatim>\<open>o.id\<close> and \<^verbatim>\<open>o.version_id\<close>. Neither name is an attribute of the object,
  so both lookups are answered by \<^verbatim>\<open>__getattr__\<close>.
\<close>

definition DistroDocker_mkenv :: "sandbox \<Rightarrow> host \<Rightarrow> (error + unit) \<times> host" where
  "DistroDocker_mkenv self h =
     (case OSrelease_init (image_path self) False False (files h) of
        Inl e \<Rightarrow> (Inl e, h)
      | Inr osr \<Rightarrow>
          (case OSrelease_getattr osr ''id'' of
             Inl e \<Rightarrow> (Inl e, h)
           | Inr name \<Rightarrow>
               (case OSrelease_getattr osr ''version_id'' of
                  Inl e \<Rightarrow> (Inl e, h)
                | Inr tag \<Rightarrow>
                    Singularity_mkenv self name tag (dd_editor self) (dd_editor_args self) h)))"

text \<open>
  \<^verbatim>\<open>getattr(self, fn_name)()\<close> for the names this file gives the object: the methods
  that take no argument run, a method that needs arguments or an attribute that holds
  data raises \<^verbatim>\<open>TypeError\<close>. Any other name is answered with
  \<^verbatim>\<open>AttributeError\<close>; the attributes every Python object has are not covered.
\<close>

definition call_extra :: "string \<Rightarrow> sandbox \<Rightarrow> host \<Rightarrow> (error + sandbox) \<times> host" where
  "call_extra fn_name self =
     (if fn_name = ''localtime'' then andthen (localtime self) (\<lambda>u. ok self)
      else if fn_name = ''helpers'' then andthen (helpers self) (\<lambda>u. ok self)
      else if fn_name = ''mkenv'' then andthen (DistroDocker_mkenv self) (\<lambda>u. ok self)
      else if fn_name = ''install'' then install self
      else if fn_name = ''upgrade'' then upgrade self
      else if fn_name = ''update'' then update self
      else if fn_name = ''update_distro'' then andthen (update_distro self) (\<lambda>u. ok self)
      else if fn_name = ''upgrade_distro'' then andthen (upgrade_distro self) (\<lambda>u. ok self)
      else if fn_name \<in> {''build'', ''exec'', ''mkfile'', ''install_distro'', ''_run'',
                          ''image_path'', ''prog'', ''_dd_editor'', ''_dd_editor_args'',
                          ''_dd_updated'', ''_dd_pkgs''}
      then (\<lambda>h. (Inl (TypeError fn_name), h))
      else (\<lambda>h. (Inl (AttributeError fn_name), h)))"

fun run_extras :: "string list \<Rightarrow> sandbox \<Rightarrow> host \<Rightarrow> (error + sandbox) \<times> host" where
  "run_extras [] self = ok self"
| "run_extras (fn_name # extras) self =
     andthen (call_extra fn_name self) (run_extras extras)"

definition DistroDocker_init ::
  "distro \<Rightarrow> string \<Rightarrow> string \<Rightarrow> string \<Rightarrow> string \<Rightarrow> string \<Rightarrow> string \<Rightarrow> string \<Rightarrow> bool \<Rightarrow>
   host \<Rightarrow> (error + sandbox) \<times> host" where
  "DistroDocker_init cls name ip tag editor editor_args extras pkgs upgr h =
     (let pkgs1 = (if editor \<noteq> ''vi'' then pkgs @ '' '' @ editor else pkgs);
          ex0 = py_split extras;
          ex1 = (if pkgs1 \<noteq> [] \<and> ''install'' \<notin> set ex0 then ex0 @ [''install''] else ex0);
          ex2 = (if upgr then ex1 @ [''upgrade''] else ex1);
          ip1 = (if ip = [] then name else ip)
      in (case Singularity_init ip1 h of
            Inl e \<Rightarrow> (Inl e, h)
          | Inr (p, w) \<Rightarrow>
              andthen
                (build \<lparr>image_path = p, prog = w, dd_editor = editor,
                        dd_editor_args = editor_args, dd_updated = False,
                        dd_pkgs = py_split pkgs1, distro = cls\<rparr>
                   (''docker://'' @ name @ '':'' @ tag))
                (\<lambda>u. run_extras ex2
                   \<lparr>image_path = p, prog = w, dd_editor = editor,
                    dd_editor_args = editor_args, dd_updated = False,
                    dd_pkgs = py_split pkgs1, distro = cls\<rparr>) h))"

definition Alpine_init :: "string \<Rightarrow> string \<Rightarrow> string \<Rightarrow> bool \<Rightarrow> host \<Rightarrow> (error + sandbox) \<times> host" where
  "Alpine_init ip tag pkgs upgr =
     DistroDocker_init Alpine ''alpine'' ip tag ''nano'' [] ''localtime helpers mkenv'' pkgs upgr"

definition Fedora_init :: "string \<Rightarrow> string \<Rightarrow> string \<Rightarrow> bool \<Rightarrow> host \<Rightarrow> (error + sandbox) \<times> host" where
  "Fedora_init ip tag pkgs upgr =
     DistroDocker_init Fedora ''fedora'' ip tag ''nano'' [] ''localtime helpers mkenv'' pkgs upgr"

definition Ubuntu_init :: "string \<Rightarrow> string \<Rightarrow> string \<Rightarrow> bool \<Rightarrow> host \<Rightarrow> (error + sandbox) \<times> host" where
  "Ubuntu_init ip tag pkgs upgr =
     DistroDocker_init Ubuntu ''ubuntu'' ip tag ''nano'' [] ''localtime helpers mkenv'' pkgs upgr"

subsection \<open>UnifiNetworkController\<close>

text \<open>
  The loop over the process names: the state is \<open>(ps_haveged, ps_unc)\<close>, and the loop
  ends early once both are set.
\<close>

fun unc_scan :: "string list \<Rightarrow> bool \<times> bool \<Rightarrow> bool \<times> bool" where
  "unc_scan [] (ps_haveged, ps_unc) = (ps_haveged, ps_unc)"
| "unc_scan (name # names) (ps_haveged, ps_unc) =
     (let st = (if name = ''unifi'' then (ps_haveged, True)
                else if endswith name ''/haveged'' then (True, ps_unc)
                else (ps_haveged, ps_unc))
      in if fst st \<and> snd st then st else unc_scan names st)"

definition UnifiNetworkController_init :: "string \<Rightarrow> host \<Rightarrow> (error + sandbox) \<times> host" where
  "UnifiNetworkController_init ip h =
     (if user h = ''root''
      then (Inl (RuntimeError ''UNC does not support root-owned containers''), h)
      else (case ps_bins (procs h) of
              Inl e \<Rightarrow> (Inl e, h)
            | Inr names \<Rightarrow>
                (if snd (unc_scan names (False, False))
                 then (Inl (RuntimeError
                         (''UNC requires all existing running versions ''
                          @ ''on this host to be stopped before installing'')), h)
                 else (let pkgs = ''dialog less logrotate procps apt-transport-https ''
                                  @ ''ca-certificates gnupg wget mongodb-server'';
                           ip1 = (if ip = [] then ''unc'' else ip);
                           tag = (if arch_bits h = ''32bit'' \<and> startswith (machine h) ''arm''
                                  then ''xenial'' else ''focal'')
                       in andthen (Ubuntu_init ip1 tag pkgs True)
                            (\<lambda>self. andthen
                               (exec self (CmdStr (''apt-key adv --keyserver keyserver.ubuntu.com ''
                                                   @ ''--recv 06E85760C0A52C50'')) True)
                            (\<lambda>u. andthen
                               (mkfile self ''etc/apt/sources.list.d/100-ubnt-unifi.list''
                                  (Lines [''deb https://www.ui.com/downloads/unifi/debian ''
                                          @ ''stable ubiquiti'']) 420)
                            (\<lambda>u. andthen (update_distro self)
                            (\<lambda>u. andthen
                               (if tag \<noteq> ''xenial''
                                then exec self (CmdStr ''apt-mark hold openjdk-1?-*'') True
                                else ok ())
                            (\<lambda>u. andthen
                               (install_distro self [''openjdk-8-jre-headless'', ''unifi''])
                            (\<lambda>u. andthen (exec self (CmdStr ''apt autoremove -y'') True)
                            (\<lambda>u. ok self))))))) h))))"

subsection \<open>Homebridge\<close>

text \<open>
  The values \<^verbatim>\<open>json.load\<close> builds. An object is the list of its members, each key
  once; a number is kept as it is written. \<^verbatim>\<open>json.load\<close> and \<^verbatim>\<open>json.dumps\<close> are
  parameters of the model: \<open>json_load\<close> gives the value a text stands for or the
  exception, \<open>json_dumps\<close> the text of a value with sorted keys and an indent of 4.
\<close>

datatype json =
    JNull
  | JBool bool
  | JNum string
  | JStr string
  | JArr "json list"
  | JObj "(string \<times> json) list"

text \<open>\<^verbatim>\<open>data[key]\<close> for a string \<open>key\<close>.\<close>

definition subscript :: "json \<Rightarrow> string \<Rightarrow> error + json" where
  "subscript data k =
     (case data of
        JObj kvs \<Rightarrow> (case map_of kvs k of Some v \<Rightarrow> Inr v | None \<Rightarrow> Inl (KeyError k))
      | _ \<Rightarrow> Inl (TypeError k))"

text \<open>
  What \<^verbatim>\<open>for pl in x\<close> runs through: the items of a list, the keys of an object, the
  characters of a string; nothing else can be iterated.
\<close>

definition json_iter :: "json \<Rightarrow> error + json list" where
  "json_iter x =
     (case x of
        JArr xs \<Rightarrow> Inr xs
      | JObj kvs \<Rightarrow> Inr (map (\<lambda>kv. JStr (fst kv)) kvs)
      | JStr s \<Rightarrow> Inr (map (\<lambda>c. JStr [c]) s)
      | _ \<Rightarrow> Inl (TypeError ''not iterable''))"

text \<open>
  The loop: the first item whose \<^verbatim>\<open>platform\<close> is \<^verbatim>\<open>config\<close> gets the
  \<^verbatim>\<open>log\<close> member and the loop ends; \<open>None\<close> when the loop ends with
  \<^verbatim>\<open>found\<close> still false. Only an object has \<^verbatim>\<open>get\<close>.
\<close>

fun set_log :: "json list \<Rightarrow> error + json list option" where
  "set_log [] = Inr None"
| "set_log (pl # pls) =
     (case pl of
        JObj kvs \<Rightarrow>
          (if (case map_of kvs ''platform'' of Some v \<Rightarrow> v | None \<Rightarrow> JStr []) = JStr ''config''
           then Inr (Some
                  (JObj (AList.update ''log''
                           (JObj [(''method'', JStr ''file''),
                                  (''path'', JStr ''/tmp/homebridge.log'')]) kvs) # pls))
           else (case set_log pls of
                   Inl e \<Rightarrow> Inl e
                 | Inr None \<Rightarrow> Inr None
                 | Inr (Some pls1) \<Rightarrow> Inr (Some (pl # pls1))))
      | _ \<Rightarrow> Inl (AttributeError ''get''))"

text \<open>The loop on \<^verbatim>\<open>data['platforms']\<close> and the check of \<^verbatim>\<open>found\<close> after it.\<close>

definition add_log :: "json \<Rightarrow> error + json" where
  "add_log data =
     (case subscript data ''platforms'' of
        Inl e \<Rightarrow> Inl e
      | Inr x \<Rightarrow>
          (case json_iter x of
             Inl e \<Rightarrow> Inl e
           | Inr pls \<Rightarrow>
               (case set_log pls of
                  Inl e \<Rightarrow> Inl e
                | Inr None \<Rightarrow> Inl (RuntimeError ''unable to add logging to config.json'')
                | Inr (Some pls1) \<Rightarrow>
                    (case data of
                       JObj kvs \<Rightarrow> Inr (JObj (AList.update ''platforms'' (JArr pls1) kvs))
                     | _ \<Rightarrow> Inr data))))"

text \<open>
  The last part of \<^verbatim>\<open>Homebridge.__init__\<close>, from reading \<^verbatim>\<open>config.json\<close> to the
  move inside the sandbox.
\<close>

definition Homebridge_config ::
  "(string \<Rightarrow> error + json) \<Rightarrow> (json \<Rightarrow> string) \<Rightarrow> sandbox \<Rightarrow> host \<Rightarrow> (error + unit) \<times> host" where
  "Homebridge_config json_load json_dumps self h =
     (case read_file (joinpath (image_path self) ''var/lib/homebridge/config.json'') (files h) of
        Inl e \<Rightarrow> (Inl e, h)
      | Inr s \<Rightarrow>
          (case json_load s of
             Inl e \<Rightarrow> (Inl e, h)
           | Inr data \<Rightarrow>
               (case add_log data of
                  Inl e \<Rightarrow> (Inl e, h)
                | Inr data1 \<Rightarrow>
                    andthen (mkfile self ''/homebridge_config.json'' (Text (json_dumps data1)) 420)
                      (\<lambda>u. exec self
                         (CmdStr (''mv -v /homebridge_config.json ''
                                  @ ''/root/.homebridge/config.json'')) True) h)))"

fun hb_scan :: "string list \<Rightarrow> bool" where
  "hb_scan [] = False"
| "hb_scan (name # names) = (if contains name ''avahi-daemon:'' then True else hb_scan names)"

definition Homebridge_init ::
  "(string \<Rightarrow> error + json) \<Rightarrow> (json \<Rightarrow> string) \<Rightarrow> string \<Rightarrow> host \<Rightarrow> (error + sandbox) \<times> host" where
  "Homebridge_init json_load json_dumps ip h =
     (case ps_bins (procs h) of
        Inl e \<Rightarrow> (Inl e, h)
      | Inr names \<Rightarrow>
          (let pkgs = ''dialog less gcc g++ make python net-tools wget''
                      @ (if \<not> hb_scan names then '' avahi-daemon'' else []);
               ip1 = (if ip = [] then ''hb'' else ip)
           in andthen (Ubuntu_init ip1 ''focal'' pkgs True)
                (\<lambda>self. andthen
                   (exec self (CmdStr (''wget -O /nodejs_lts_installer.bash ''
                                       @ ''https://deb.nodesource.com/setup_16.x'')) True)
                (\<lambda>u. andthen (exec self (CmdStr ''bash /nodejs_lts_installer.bash'') True)
                (\<lambda>u. andthen (install_distro self [''nodejs''])
                (\<lambda>u. andthen
                   (exec self (CmdStr (''npm install --global --unsafe-perm ''
                                       @ ''homebridge homebridge-config-ui-x'')) True)
                (\<lambda>u. andthen (exec self (CmdStr ''hb-service install --user root'') True)
                (\<lambda>u. andthen
                   (on_files (mkdir_exist_ok (joinpath (image_path self) ''root/.homebridge'')))
                (\<lambda>u. andthen (Homebridge_config json_load json_dumps self)
                (\<lambda>u. ok self)))))))) h))"

subsection \<open>main\<close>

text \<open>
  The arguments as \<^verbatim>\<open>argparse\<close> hands them over, and the values of the keyword
  arguments: a string, or for \<^verbatim>\<open>upgrade\<close> a truth value.
\<close>

record args =
  arg_list :: bool
  arg_image_path :: string
  arg_name :: string
  arg_option :: "string list"

datatype pyval = Str string | Bool bool

text \<open>The loop over \<^verbatim>\<open>args.option\<close> that fills \<^verbatim>\<open>sb_args\<close>.\<close>

fun sb_args_loop :: "string list \<Rightarrow> (string \<times> pyval) list \<Rightarrow> (string \<times> pyval) list" where
  "sb_args_loop [] sb = sb"
| "sb_args_loop (kv # kvs) sb =
     (if CHR ''='' \<in> set kv
      then (let k = takeWhile (\<lambda>c. c \<noteq> CHR ''='') kv;
                v = drop 1 (dropWhile (\<lambda>c. c \<noteq> CHR ''='') kv)
            in sb_args_loop kvs
                 (AList.update k
                    (if k = ''upgrade''
                     then Bool (lower v \<in> {''y'', ''yes'', ''t'', ''true''})
                     else Str v) sb))
      else sb_args_loop kvs sb)"

definition sb_args :: "args \<Rightarrow> (string \<times> pyval) list" where
  "sb_args a =
     sb_args_loop (arg_option a)
       [(''image_path'', Str (if arg_image_path a = [] then arg_name a else arg_image_path a))]"

text \<open>
  The call \<^verbatim>\<open>Profile(**sb_args)\<close>: a key that is no parameter of the constructor
  raises \<^verbatim>\<open>TypeError\<close>, a parameter without a key gets its default. The loop above
  stores a truth value under \<^verbatim>\<open>upgrade\<close> and strings under every other key.
\<close>

definition str_arg :: "(string \<times> pyval) list \<Rightarrow> string \<Rightarrow> string \<Rightarrow> string" where
  "str_arg sb k dflt = (case map_of sb k of Some (Str s) \<Rightarrow> s | _ \<Rightarrow> dflt)"

definition bool_arg :: "(string \<times> pyval) list \<Rightarrow> string \<Rightarrow> bool \<Rightarrow> bool" where
  "bool_arg sb k dflt = (case map_of sb k of Some (Bool b) \<Rightarrow> b | _ \<Rightarrow> dflt)"

definition call_distro ::
  "(string \<Rightarrow> string \<Rightarrow> string \<Rightarrow> bool \<Rightarrow> host \<Rightarrow> (error + sandbox) \<times> host) \<Rightarrow>
   (string \<times> pyval) list \<Rightarrow> host \<Rightarrow> (error + sandbox) \<times> host" where
  "call_distro init sb h =
     (case filter (\<lambda>k. k \<notin> {''image_path'', ''tag'', ''pkgs'', ''upgrade''}) (map fst sb) of
        k # ks \<Rightarrow> (Inl (TypeError k), h)
      | [] \<Rightarrow> init (str_arg sb ''image_path'' []) (str_arg sb ''tag'' ''latest'')
                (str_arg sb ''pkgs'' []) (bool_arg sb ''upgrade'' False) h)"

definition call_app ::
  "(string \<Rightarrow> host \<Rightarrow> (error + sandbox) \<times> host) \<Rightarrow>
   (string \<times> pyval) list \<Rightarrow> host \<Rightarrow> (error + sandbox) \<times> host" where
  "call_app init sb h =
     (case filter (\<lambda>k. k \<noteq> ''image_path'') (map fst sb) of
        k # ks \<Rightarrow> (Inl (TypeError k), h)
      | [] \<Rightarrow> init (str_arg sb ''image_path'' []) h)"

text \<open>
  How \<^verbatim>\<open>main\<close> ends: after the listing, after the build, or in \<^verbatim>\<open>p.error\<close> with
  the profile's name and the exception caught.
\<close>

datatype outcome = Listed | Built | ParserError string error

definition main ::
  "(string \<Rightarrow> error + json) \<Rightarrow> (json \<Rightarrow> string) \<Rightarrow> args \<Rightarrow> host \<Rightarrow> outcome \<times> host" where
  "main json_load json_dumps a h =
     (if arg_list a then (Listed, h)
      else (case (if arg_name a = ''alpine'' then call_distro Alpine_init (sb_args a) h
                  else if arg_name a = ''fedora'' then call_distro Fedora_init (sb_args a) h
                  else if arg_name a = ''ubuntu'' then call_distro Ubuntu_init (sb_args a) h
                  else if arg_name a = ''unc''
                  then call_app UnifiNetworkController_init (sb_args a) h
                  else if arg_name a = ''hb''
                  then call_app (Homebridge_init json_load json_dumps) (sb_args a) h
                  else (Inl (KeyError (arg_name a)), h)) of
              (Inl e, h1) \<Rightarrow> (ParserError (arg_name a) e, h1)
            | (Inr self, h1) \<Rightarrow> (Built, h1)))"

subsection \<open>The snapshot as the specification words it\<close>

text \<open>
  The specification's contract for the process scanner, in its own words: for every
  entry whose name is purely numeric, the command-line record is split at the null
  bytes, and a first field that is not empty is in the result.
\<close>

definition numeric_name :: "string \<Rightarrow> bool" where
  "numeric_name n = (n \<noteq> [] \<and> list_all is_digit n)"

fun record_text :: "proc_entry \<Rightarrow> string option" where
  "record_text (ProcDir (Present (Inr s))) = Some s"
| "record_text (ProcDir (Present (Inl err))) = None"
| "record_text (ProcDir Absent) = None"
| "record_text NotDir = None"

definition snapshot_spec :: "procfs \<Rightarrow> string set" where
  "snapshot_spec root =
     set (filter (\<lambda>f. f \<noteq> [])
       (map (\<lambda>s. case split_on (CHR 0x00) s of [] \<Rightarrow> [] | f # fs \<Rightarrow> f)
         (List.map_filter
            (\<lambda>(name, e). if numeric_name name then record_text e else None) root)))"

text \<open>Every record that \<^verbatim>\<open>glob\<close> yields can be opened and read when the loop gets to it.\<close>

definition readable :: "procfs \<Rightarrow> bool" where
  "readable root =
     list_all (\<lambda>e. case glob_cmdline e of Some (Inl err) \<Rightarrow> False | _ \<Rightarrow> True) root"

text \<open>The fields the loop of \<^verbatim>\<open>ps_bins\<close> adds, in the order it meets them.\<close>

fun glob_fields :: "procfs \<Rightarrow> string list" where
  "glob_fields [] = []"
| "glob_fields (e # es) =
     (case glob_cmdline e of
        Some (Inr d) \<Rightarrow> (if first_field d \<noteq> [] then first_field d # glob_fields es
                         else glob_fields es)
      | _ \<Rightarrow> glob_fields es)"

subsection \<open>Sample data\<close>

text \<open>A host and a sandbox object for the concrete instances of the theorems below.\<close>

definition example_host :: host where
  "example_host =
     \<lparr>files = [[''etc''] \<mapsto> Dir, [''etc'', ''localtime''] \<mapsto> File ''TZif2'' 420,
               [''work''] \<mapsto> Dir, [''work'', ''sb''] \<mapsto> Dir,
               [''work'', ''sb'', ''var''] \<mapsto> Dir, [''work'', ''sb'', ''var'', ''lib''] \<mapsto> Dir,
               [''work'', ''sb'', ''var'', ''lib'', ''homebridge''] \<mapsto> Dir],
      procs = [(''1'', ProcDir (Present (Inr (''/sbin/init'' @ [CHR 0x00])))),
               (''self'', ProcDir (Present (Inr (''python3'' @ [CHR 0x00]))))],
      user = ''alice'', cwd = [''work''], which_singularity = Some ''/usr/bin/singularity'',
      arch_bits = ''64bit'', machine = ''x86_64'', cmode = 420,
      tool = (\<lambda>cmd wd f. (None, f)), ran = []\<rparr>"

definition example_sandbox :: sandbox where
  "example_sandbox =
     \<lparr>image_path = [''work'', ''sb''], prog = ''/usr/bin/singularity'', dd_editor = ''nano'',
      dd_editor_args = [], dd_updated = False, dd_pkgs = [''nano''], distro = Ubuntu\<rparr>"

text \<open>The directories of a sandbox tree, and a tree that holds both release files.\<close>

definition sandbox_dirs :: fs where
  "sandbox_dirs =
     [[''sb''] \<mapsto> Dir, [''sb'', ''etc''] \<mapsto> Dir, [''sb'', ''usr''] \<mapsto> Dir,
      [''sb'', ''usr'', ''lib''] \<mapsto> Dir]"

definition both_files :: fs where
  "both_files =
     sandbox_dirs
       ([''sb'', ''etc'', ''os-release''] \<mapsto> File (''ID=alpine'' @ [CHR 0x0A]) 420,
        [''sb'', ''usr'', ''lib'', ''os-release''] \<mapsto> File (''ID=other'' @ [CHR 0x0A]) 420)"

subsection \<open>Reading one release file\<close>

text \<open>
  What \<^verbatim>\<open>OSrelease\<close> is after parsing the one file \<open>fname\<close> under the root: no
  other path of the file system is looked at.
\<close>

definition parsed_from :: "path \<Rightarrow> bool \<Rightarrow> bool \<Rightarrow> string \<Rightarrow> fs \<Rightarrow> error + osrelease" where
  "parsed_from root cs ex fname f =
     (case read_file (joinpath root fname) f of
        Inl e \<Rightarrow> Inl e
      | Inr s \<Rightarrow>
          (case parse_os_release s of
             Inl e \<Rightarrow> Inl e
           | Inr d \<Rightarrow> Inr \<lparr>os_root = root, os_case_sensitive = cs, os_exact = ex,
                           os_fname = path_str (joinpath root fname), os_data = d\<rparr>))"

subsection \<open>Calling update several times\<close>

text \<open>\<open>n\<close> calls of \<^verbatim>\<open>update()\<close> in a row; an exception ends the row.\<close>

fun update_n :: "nat \<Rightarrow> sandbox \<Rightarrow> host \<Rightarrow> (error + sandbox) \<times> host" where
  "update_n 0 self = ok self"
| "update_n (Suc n) self = andthen (update self) (update_n n)"

subsection \<open>The platforms of a configuration\<close>

text \<open>
  An entry whose \<^verbatim>\<open>platform\<close> member is the string \<^verbatim>\<open>config\<close>, and a
  configuration whose \<^verbatim>\<open>platforms\<close> member is a list with such an entry.
\<close>

fun is_config :: "json \<Rightarrow> bool" where
  "is_config (JObj kvs) = (map_of kvs ''platform'' = Some (JStr ''config''))"
| "is_config x = False"

fun is_object :: "json \<Rightarrow> bool" where
  "is_object (JObj kvs) = True"
| "is_object x = False"

definition has_config_platform :: "json \<Rightarrow> bool" where
  "has_config_platform data =
     (case subscript data ''platforms'' of
        Inr (JArr pls) \<Rightarrow> list_ex is_config pls
      | _ \<Rightarrow> False)"

definition example_config :: json where
  "example_config =
     JObj [(''bridge'', JObj [(''name'', JStr ''Homebridge'')]),
           (''platforms'', JArr [JObj [(''platform'', JStr ''Camera'')]])]"

subsection \<open>Options\<close>

text \<open>The key of an option, as the loop reads it.\<close>

definition is_upgrade :: "string \<Rightarrow> bool" where
  "is_upgrade kv = (CHR ''='' \<in> set kv \<and> takeWhile (\<lambda>c. c \<noteq> CHR ''='') kv = ''upgrade'')"

definition example_args :: args where
  "example_args =
     \<lparr>arg_list = False, arg_image_path = [], arg_name = ''ubuntu'',
      arg_option = [''tag=jammy'', ''verbose'', ''upgrade=YES'']\<rparr>"

subsection \<open>Well-formed release files\<close>













section \<open>Properties\<close>

subsection \<open>Strings\<close>

lemma split_on_not_Nil: "split_on sep s \<noteq> []"
  by (induction s) (auto split: list.splits)

subsection \<open>ps_bins\<close>

lemma set_add_set: "set (set_add x s) = insert x (set s)"
  by (auto simp: set_add_def)

lemma set_add_distinct: "distinct s \<Longrightarrow> distinct (set_add x s)"
  by (auto simp: set_add_def)

lemma glob_name_iff: "glob_name name \<longleftrightarrow> name \<noteq> [] \<and> is_digit (hd name)"
  by (cases name) auto

lemma glob_cmdline_Some:
  "glob_cmdline e = Some r \<longleftrightarrow>
     (\<exists>name. e = (name, ProcDir (Present r)) \<and> name \<noteq> [] \<and> is_digit (hd name))"
  by (cases e rule: glob_cmdline.cases) (auto simp: glob_name_iff)

lemma mem_glob_fields:
  "f \<in> set (glob_fields root) \<longleftrightarrow>
     (\<exists>e d. e \<in> set root \<and> glob_cmdline e = Some (Inr d) \<and> f = first_field d \<and> f \<noteq> [])"
proof (induction root)
  case Nil
  then show ?case by simp
next
  case (Cons e es)
  show ?case
  proof (cases "glob_cmdline e")
    case None
    with Cons show ?thesis by auto
  next
    case (Some r)
    with Cons show ?thesis
      by (cases r) (auto simp del: split_paired_Ex split_paired_All)
  qed
qed

lemma set_glob_fields:
  "set (glob_fields root) =
     {first_field d |name d.
        (name, ProcDir (Present (Inr d))) \<in> set root \<and>
        name \<noteq> [] \<and> is_digit (hd name) \<and> first_field d \<noteq> []}"
  by (rule set_eqI) (simp add: mem_glob_fields glob_cmdline_Some, blast)

text \<open>
  The loop, started with any set \<open>s\<close>: when every record can be read it returns \<open>s\<close>
  with the fields of the records added.
\<close>

lemma ps_scan_readable:
  "readable root \<Longrightarrow> distinct s \<Longrightarrow>
   \<exists>s'. ps_scan root s = Inr s' \<and> distinct s' \<and> set s' = set s \<union> set (glob_fields root)"
proof (induction root arbitrary: s)
  case Nil
  then show ?case by simp
next
  case (Cons e es)
  from Cons.prems have r: "readable es" by (simp add: readable_def)
  show ?case
  proof (cases "glob_cmdline e")
    case None
    with Cons.IH[OF r Cons.prems(2)] show ?thesis
      by simp
  next
    case (Some r')
    with Cons.prems obtain d where t: "glob_cmdline e = Some (Inr d)"
      by (cases r') (auto simp: readable_def)
    show ?thesis
    proof (cases "first_field d = []")
      case True
      with t Cons.IH[OF r Cons.prems(2)] show ?thesis
        by simp
    next
      case False
      from Cons.prems(2) have "distinct (set_add (first_field d) s)"
        by (rule set_add_distinct)
      from Cons.IH[OF r this] False t show ?thesis
        by (auto simp: set_add_set)
    qed
  qed
qed

lemma ps_scan_error:
  "readable xs \<Longrightarrow> glob_cmdline e = Some (Inl err) \<Longrightarrow> ps_scan (xs @ e # ys) s = Inl err"
proof (induction xs arbitrary: s)
  case Nil
  then show ?case by simp
next
  case (Cons x xs)
  then show ?case
    by (cases "glob_cmdline x") (auto simp: readable_def split: sum.splits)
qed

lemma ps_scan_skip:
  "glob_cmdline e = None \<Longrightarrow> ps_scan (xs @ e # ys) s = ps_scan (xs @ ys) s"
  by (induction xs arbitrary: s) (auto split: option.splits sum.splits)

text \<open>
  C6, as amended. When every command-line record that \<^verbatim>\<open>glob\<close> yields can be read,
  \<^verbatim>\<open>ps_bins\<close> returns a set, and its members are exactly the non-empty first
  null-separated fields of the first line of the \<^verbatim>\<open>cmdline\<close> records of the
  directories whose names begin with a digit. For the root with the directories
  \<^verbatim>\<open>1\<close> (record \<^verbatim>\<open>unifi\0\<close>), \<^verbatim>\<open>2\<close> (empty record) and \<^verbatim>\<open>foo\<close> the
  set is exactly \<^verbatim>\<open>{'unifi'}\<close>.
\<close>

theorem ps_bins_snapshot:
  "(readable root \<longrightarrow>
      (\<exists>s. ps_bins root = Inr s \<and> distinct s \<and>
         set s = {first_field d |name d.
                    (name, ProcDir (Present (Inr d))) \<in> set root \<and>
                    name \<noteq> [] \<and> is_digit (hd name) \<and> first_field d \<noteq> []}))
   \<and> ps_bins [(''1'', ProcDir (Present (Inr (''unifi'' @ [CHR 0x00])))),
               (''2'', ProcDir (Present (Inr []))),
               (''foo'', ProcDir (Present (Inr (''bash'' @ [CHR 0x00]))))] = Inr [''unifi'']"
proof -
  have "\<exists>s. ps_bins root = Inr s \<and> distinct s \<and>
         set s = {first_field d |name d.
                    (name, ProcDir (Present (Inr d))) \<in> set root \<and>
                    name \<noteq> [] \<and> is_digit (hd name) \<and> first_field d \<noteq> []}"
    if "readable root"
    using ps_scan_readable[OF that, of "[]"] by (simp add: ps_bins_def set_glob_fields)
  moreover
  have "ps_bins [(''1'', ProcDir (Present (Inr (''unifi'' @ [CHR 0x00])))),
                 (''2'', ProcDir (Present (Inr []))),
                 (''foo'', ProcDir (Present (Inr (''bash'' @ [CHR 0x00]))))] = Inr [''unifi'']"
    by (simp add: ps_bins_def first_field_def is_digit_def set_add_def)
  ultimately show ?thesis by blast
qed

theorem ps_bins_snapshot_witness:
  "readable [(''7x'', ProcDir (Present (Inr (''a'' @ [CHR 0x00])))), (''tty'', NotDir)]
   \<and> ps_bins [(''7x'', ProcDir (Present (Inr (''a'' @ [CHR 0x00])))), (''tty'', NotDir)]
       = Inr [''a'']"
proof -
  have r: "readable [(''7x'', ProcDir (Present (Inr (''a'' @ [CHR 0x00])))), (''tty'', NotDir)]"
    by (simp add: readable_def is_digit_def)
  from ps_bins_snapshot[of "[(''7x'', ProcDir (Present (Inr (''a'' @ [CHR 0x00])))), (''tty'', NotDir)]"] r
  obtain s where "ps_bins [(''7x'', ProcDir (Present (Inr (''a'' @ [CHR 0x00])))), (''tty'', NotDir)] = Inr s"
    by blast
  then have "ps_bins [(''7x'', ProcDir (Present (Inr (''a'' @ [CHR 0x00])))), (''tty'', NotDir)]
             = Inr [''a'']"
    by (simp add: ps_bins_def first_field_def is_digit_def set_add_def)
  with r show ?thesis by simp
qed

text \<open>
  C6 as the claim words it fails: the directory \<^verbatim>\<open>7x\<close> is not purely numeric but
  matches \<^verbatim>\<open>[0-9]*\<close>, and of the record \<^verbatim>\<open>b\nc\0\<close> only the first line is read.
\<close>

theorem ps_bins_snapshot_counterexample:
  "ps_bins [(''7x'', ProcDir (Present (Inr (''a'' @ [CHR 0x00])))),
            (''1'', ProcDir (Present (Inr (''b'' @ [CHR 0x0A] @ ''c'' @ [CHR 0x00]))))]
     = Inr [''a'', ''b'' @ [CHR 0x0A]]
   \<and> snapshot_spec [(''7x'', ProcDir (Present (Inr (''a'' @ [CHR 0x00])))),
                     (''1'', ProcDir (Present (Inr (''b'' @ [CHR 0x0A] @ ''c'' @ [CHR 0x00]))))]
     = {''b'' @ [CHR 0x0A] @ ''c''}"
  by (simp add: ps_bins_def first_field_def is_digit_def set_add_def snapshot_spec_def
      numeric_name_def map_filter_simps)

text \<open>
  C7, as amended. When a command-line record that \<^verbatim>\<open>glob\<close> has yielded cannot be
  opened or read, \<^verbatim>\<open>ps_bins\<close> raises that exception and returns no set, whatever
  it has read before and whatever follows. A directory whose record is already gone
  when \<^verbatim>\<open>glob\<close> looks for it is skipped.
\<close>

theorem ps_bins_unreadable:
  "(readable xs \<and> glob_cmdline e = Some (Inl err) \<longrightarrow> ps_bins (xs @ e # ys) = Inl err)
   \<and> ps_bins (xs @ (name, ProcDir Absent) # ys) = ps_bins (xs @ ys)"
  by (simp add: ps_bins_def ps_scan_error ps_scan_skip)

theorem ps_bins_unreadable_witness:
  "readable [(''1'', ProcDir (Present (Inr (''init'' @ [CHR 0x00]))))]
   \<and> glob_cmdline (''2'', ProcDir (Present (Inl (FileNotFoundError ''/proc/2/cmdline''))))
       = Some (Inl (FileNotFoundError ''/proc/2/cmdline''))
   \<and> ps_bins ([(''1'', ProcDir (Present (Inr (''init'' @ [CHR 0x00]))))]
              @ (''2'', ProcDir (Present (Inl (FileNotFoundError ''/proc/2/cmdline'')))) # [])
       = Inl (FileNotFoundError ''/proc/2/cmdline'')"
  using ps_bins_unreadable[of "[(''1'', ProcDir (Present (Inr (''init'' @ [CHR 0x00]))))]"
      "(''2'', ProcDir (Present (Inl (FileNotFoundError ''/proc/2/cmdline''))))"
      "FileNotFoundError ''/proc/2/cmdline''" "[]"]
  by (simp add: readable_def is_digit_def)

text \<open>
  C7 as the claim words it fails: the record of process 2 is gone when the loop opens
  it, and the scan raises instead of returning the names of processes 1 and 3.
\<close>

theorem ps_bins_unreadable_counterexample:
  "ps_bins [(''1'', ProcDir (Present (Inr (''init'' @ [CHR 0x00])))),
            (''2'', ProcDir (Present (Inl (FileNotFoundError ''/proc/2/cmdline'')))),
            (''3'', ProcDir (Present (Inr (''sshd'' @ [CHR 0x00]))))]
     = Inl (FileNotFoundError ''/proc/2/cmdline'')"
  by (simp add: ps_bins_def first_field_def is_digit_def set_add_def)

subsection \<open>mkfile\<close>




lemma exists_located: "exists f p \<Longrightarrow> \<exists>q. locate f p = Inr q"
  by (auto simp: exists_def stat_def split: sum.splits)













subsection \<open>OSrelease\<close>

lemma OSrelease_init_etc:
  "exists f (joinpath root ''etc/os-release'') \<Longrightarrow>
   OSrelease_init root cs ex f =
     (case read_file (joinpath root ''etc/os-release'') f of
        Inl e \<Rightarrow> Inl e
      | Inr s \<Rightarrow>
          (case parse_os_release s of
             Inl e \<Rightarrow> Inl e
           | Inr d \<Rightarrow> Inr \<lparr>os_root = root, os_case_sensitive = cs, os_exact = ex,
                           os_fname = path_str (joinpath root ''etc/os-release''),
                           os_data = d\<rparr>))"
  by (simp add: OSrelease_init_def split: sum.splits)

lemma OSrelease_init_usr:
  "\<not> exists f (joinpath root ''etc/os-release'') \<Longrightarrow>
   exists f (joinpath root ''usr/lib/os-release'') \<Longrightarrow>
   OSrelease_init root cs ex f =
     (case read_file (joinpath root ''usr/lib/os-release'') f of
        Inl e \<Rightarrow> Inl e
      | Inr s \<Rightarrow>
          (case parse_os_release s of
             Inl e \<Rightarrow> Inl e
           | Inr d \<Rightarrow> Inr \<lparr>os_root = root, os_case_sensitive = cs, os_exact = ex,
                           os_fname = path_str (joinpath root ''usr/lib/os-release''),
                           os_data = d\<rparr>))"
  by (simp add: OSrelease_init_def split: sum.splits)

lemma OSrelease_init_neither:
  "\<not> exists f (joinpath root ''etc/os-release'') \<Longrightarrow>
   \<not> exists f (joinpath root ''usr/lib/os-release'') \<Longrightarrow>
   OSrelease_init root cs ex f =
     Inr \<lparr>os_root = root, os_case_sensitive = cs, os_exact = ex, os_fname = [],
          os_data = [(''NAME'', ''Linux''), (''ID'', ''linux''), (''PRETTY_NAME'', ''Linux'')]\<rparr>"
  by (simp add: OSrelease_init_def)

text \<open>A name that is no attribute of the object is answered by \<^verbatim>\<open>__getattr__\<close>.\<close>

lemma lookup_getattr:
  "attr \<notin> set attribute_names \<Longrightarrow>
   OSrelease_lookup self attr =
     (case OSrelease_getattr self attr of Inl e \<Rightarrow> Inl e | Inr v \<Rightarrow> Inr (Val v))"
  by (simp add: OSrelease_lookup_def attribute_names_def)

lemma lookup_id:
  "OSrelease_lookup self ''id'' =
     (case OSrelease_getattr self ''id'' of Inl e \<Rightarrow> Inl e | Inr v \<Rightarrow> Inr (Val v))"
  "OSrelease_lookup self ''version_id'' =
     (case OSrelease_getattr self ''version_id'' of Inl e \<Rightarrow> Inl e | Inr v \<Rightarrow> Inr (Val v))"
  by (simp_all add: OSrelease_lookup_def object_names_def)

lemma getattr_defaults:
  assumes "osr = \<lparr>os_root = root, os_case_sensitive = cs, os_exact = ex, os_fname = [],
          os_data = [(''NAME'', ''Linux''), (''ID'', ''linux''), (''PRETTY_NAME'', ''Linux'')]\<rparr>"
  shows "OSrelease_getattr osr attr =
           (if (if cs then attr else upper attr) = ''NAME'' then Inr ''Linux''
            else if (if cs then attr else upper attr) = ''ID'' then Inr ''linux''
            else if (if cs then attr else upper attr) = ''PRETTY_NAME'' then Inr ''Linux''
            else if ex
            then Inl (AttributeError (''module '' @ [CHR 0x27] @ ''OSrelease'' @ [CHR 0x27]
                      @ '' has no attribute '' @ [CHR 0x27] @ (if cs then attr else upper attr)
                      @ [CHR 0x27]))
            else Inr [])"
  using assms by (auto simp: OSrelease_getattr_def Let_def)

text \<open>
  C2, as amended. \<^verbatim>\<open>OSrelease\<close> parses \<^verbatim>\<open>etc/os-release\<close> under the root when it
  exists, otherwise \<^verbatim>\<open>usr/lib/os-release\<close> when that exists, and never both: when the
  first exists, nothing else of the file system matters. When neither exists,
  \<^verbatim>\<open>file()\<close> is empty, and the lookup of a name that is no attribute of the object
  gives the defaults for \<^verbatim>\<open>NAME\<close>, \<^verbatim>\<open>ID\<close> and \<^verbatim>\<open>PRETTY_NAME\<close> and, for any
  other key, the empty string, or raises \<^verbatim>\<open>AttributeError\<close> in exact mode. A name is
  compared in upper case unless the object is case sensitive.
\<close>

theorem OSrelease_first_file:
  "(exists f (joinpath root ''etc/os-release'') \<longrightarrow>
      OSrelease_init root cs ex f = parsed_from root cs ex ''etc/os-release'' f)
   \<and> (\<not> exists f (joinpath root ''etc/os-release'') \<and>
       exists f (joinpath root ''usr/lib/os-release'') \<longrightarrow>
      OSrelease_init root cs ex f = parsed_from root cs ex ''usr/lib/os-release'' f)
   \<and> (exists f (joinpath root ''etc/os-release'') \<and>
       stat g (joinpath root ''etc/os-release'') = stat f (joinpath root ''etc/os-release'') \<longrightarrow>
      OSrelease_init root cs ex g = OSrelease_init root cs ex f)
   \<and> (\<not> exists f (joinpath root ''etc/os-release'') \<and>
       \<not> exists f (joinpath root ''usr/lib/os-release'') \<longrightarrow>
      (\<exists>osr. OSrelease_init root cs ex f = Inr osr \<and>
         OSrelease_file osr = [] \<and>
         (\<forall>attr. attr \<notin> set attribute_names \<longrightarrow>
            OSrelease_lookup osr attr =
              (if (if cs then attr else upper attr) = ''NAME'' then Inr (Val ''Linux'')
               else if (if cs then attr else upper attr) = ''ID'' then Inr (Val ''linux'')
               else if (if cs then attr else upper attr) = ''PRETTY_NAME'' then Inr (Val ''Linux'')
               else if ex
               then Inl (AttributeError (''module '' @ [CHR 0x27] @ ''OSrelease'' @ [CHR 0x27]
                      @ '' has no attribute '' @ [CHR 0x27] @ (if cs then attr else upper attr)
                      @ [CHR 0x27]))
               else Inr (Val [])))))"
proof -
  have a: "OSrelease_init root cs ex f = parsed_from root cs ex ''etc/os-release'' f"
    if "exists f (joinpath root ''etc/os-release'')" for f
    using OSrelease_init_etc[OF that] by (simp add: parsed_from_def)
  have b: "OSrelease_init root cs ex f = parsed_from root cs ex ''usr/lib/os-release'' f"
    if "\<not> exists f (joinpath root ''etc/os-release'')"
      "exists f (joinpath root ''usr/lib/os-release'')"
    using OSrelease_init_usr[OF that] by (simp add: parsed_from_def)
  have c: "OSrelease_init root cs ex g = OSrelease_init root cs ex f"
    if "exists f (joinpath root ''etc/os-release'')"
      "stat g (joinpath root ''etc/os-release'') = stat f (joinpath root ''etc/os-release'')"
  proof -
    from that have "exists g (joinpath root ''etc/os-release'')"
      by (simp add: exists_def)
    with that a[of f] a[of g] show ?thesis
      by (simp add: parsed_from_def read_file_def)
  qed
  have d: "\<exists>osr. OSrelease_init root cs ex f = Inr osr \<and>
         OSrelease_file osr = [] \<and>
         (\<forall>attr. attr \<notin> set attribute_names \<longrightarrow>
            OSrelease_lookup osr attr =
              (if (if cs then attr else upper attr) = ''NAME'' then Inr (Val ''Linux'')
               else if (if cs then attr else upper attr) = ''ID'' then Inr (Val ''linux'')
               else if (if cs then attr else upper attr) = ''PRETTY_NAME'' then Inr (Val ''Linux'')
               else if ex
               then Inl (AttributeError (''module '' @ [CHR 0x27] @ ''OSrelease'' @ [CHR 0x27]
                      @ '' has no attribute '' @ [CHR 0x27] @ (if cs then attr else upper attr)
                      @ [CHR 0x27]))
               else Inr (Val [])))"
    if "\<not> exists f (joinpath root ''etc/os-release'')"
      "\<not> exists f (joinpath root ''usr/lib/os-release'')"
    using OSrelease_init_neither[OF that, of cs ex]
      getattr_defaults[OF refl, where root = root and cs = cs and ex = ex]
    by (simp add: OSrelease_file_def lookup_getattr)
  from a b c d show ?thesis by blast
qed

lemma etc_path: "joinpath [''sb''] ''etc/os-release'' = [''sb'', ''etc'', ''os-release'']"
  by (simp add: joinpath_def is_abs_def startswith_def parts_def)

lemma usr_path: "joinpath [''sb''] ''usr/lib/os-release'' = [''sb'', ''usr'', ''lib'', ''os-release'']"
  by (simp add: joinpath_def is_abs_def startswith_def parts_def)

lemma parse_alpine: "parse_os_release (''ID=alpine'' @ [CHR 0x0A]) = Inr [(''ID'', ''alpine'')]"
  by (simp add: parse_os_release_def file_lines_def parse_reset_def is_nl_def start_field_def
      parse_add_char_def parse_save_field_def field_limit_def delimiter_def quotechar_def
      dict_add_def parse_process_char_def parse_process_eol_def)

lemma parse_other: "parse_os_release (''ID=other'' @ [CHR 0x0A]) = Inr [(''ID'', ''other'')]"
  by (simp add: parse_os_release_def file_lines_def parse_reset_def is_nl_def start_field_def
      parse_add_char_def parse_save_field_def field_limit_def delimiter_def quotechar_def
      dict_add_def parse_process_char_def parse_process_eol_def)

lemma both_files_stat:
  "stat both_files [''sb'', ''etc'', ''os-release''] = Inr (File (''ID=alpine'' @ [CHR 0x0A]) 420)"
  "stat (both_files([''sb'', ''etc'', ''os-release''] := None)) [''sb'', ''etc'', ''os-release'']
     = Inl (FileNotFoundError ''/sb/etc/os-release'')"
  "stat (both_files([''sb'', ''etc'', ''os-release''] := None))
     [''sb'', ''usr'', ''lib'', ''os-release''] = Inr (File (''ID=other'' @ [CHR 0x0A]) 420)"
  by (simp_all add: stat_def locate_def node_at_def both_files_def sandbox_dirs_def path_str_def)

lemma empty_exists:
  "\<not> exists Map.empty (joinpath [''sb''] ''etc/os-release'')"
  "\<not> exists Map.empty (joinpath [''sb''] ''usr/lib/os-release'')"
  by (simp_all add: etc_path usr_path exists_def stat_def locate_def)

theorem OSrelease_first_file_witness:
  "exists both_files (joinpath [''sb''] ''etc/os-release'')
   \<and> OSrelease_init [''sb''] False False both_files
       = Inr \<lparr>os_root = [''sb''], os_case_sensitive = False, os_exact = False,
              os_fname = ''/sb/etc/os-release'', os_data = [(''ID'', ''alpine'')]\<rparr>
   \<and> \<not> exists (both_files([''sb'', ''etc'', ''os-release''] := None))
         (joinpath [''sb''] ''etc/os-release'')
   \<and> exists (both_files([''sb'', ''etc'', ''os-release''] := None))
         (joinpath [''sb''] ''usr/lib/os-release'')
   \<and> OSrelease_init [''sb''] False False (both_files([''sb'', ''etc'', ''os-release''] := None))
       = Inr \<lparr>os_root = [''sb''], os_case_sensitive = False, os_exact = False,
              os_fname = ''/sb/usr/lib/os-release'', os_data = [(''ID'', ''other'')]\<rparr>
   \<and> stat (both_files([''sb'', ''usr'', ''lib'', ''os-release''] := None))
         (joinpath [''sb''] ''etc/os-release'')
       = stat both_files (joinpath [''sb''] ''etc/os-release'')
   \<and> OSrelease_init [''sb''] False False
         (both_files([''sb'', ''usr'', ''lib'', ''os-release''] := None))
       = OSrelease_init [''sb''] False False both_files
   \<and> \<not> exists Map.empty (joinpath [''sb''] ''etc/os-release'')
   \<and> \<not> exists Map.empty (joinpath [''sb''] ''usr/lib/os-release'')
   \<and> ''name'' \<notin> set attribute_names \<and> ''version_id'' \<notin> set attribute_names
   \<and> (\<exists>osr. OSrelease_init [''sb''] False True Map.empty = Inr osr
         \<and> OSrelease_lookup osr ''name'' = Inr (Val ''Linux'')
         \<and> OSrelease_lookup osr ''version_id''
             = Inl (AttributeError (''module '' @ [CHR 0x27] @ ''OSrelease'' @ [CHR 0x27]
                      @ '' has no attribute '' @ [CHR 0x27] @ ''VERSION_ID'' @ [CHR 0x27])))"
proof -
  have 1: "exists both_files (joinpath [''sb''] ''etc/os-release'')"
    by (simp add: etc_path exists_def both_files_stat)
  have 2: "\<not> exists (both_files([''sb'', ''etc'', ''os-release''] := None))
         (joinpath [''sb''] ''etc/os-release'')"
    "exists (both_files([''sb'', ''etc'', ''os-release''] := None))
         (joinpath [''sb''] ''usr/lib/os-release'')"
    by (simp_all add: etc_path usr_path exists_def both_files_stat)
  have 4: "stat (both_files([''sb'', ''usr'', ''lib'', ''os-release''] := None))
         (joinpath [''sb''] ''etc/os-release'')
       = stat both_files (joinpath [''sb''] ''etc/os-release'')"
    by (simp add: etc_path stat_def locate_def node_at_def both_files_def sandbox_dirs_def)
  have n: "''name'' \<notin> set attribute_names" "''version_id'' \<notin> set attribute_names"
    by (simp_all add: attribute_names_def object_names_def)
  have u: "upper ''version_id'' = ''VERSION_ID''" "upper ''name'' = ''NAME''"
    by (simp_all add: upper_def upper_char_def)
  note t = OSrelease_first_file[where f = both_files and root = "[''sb'']" and cs = False
      and ex = False]
    OSrelease_first_file[where f = "both_files([''sb'', ''etc'', ''os-release''] := None)"
      and root = "[''sb'']" and cs = False and ex = False]
    OSrelease_first_file[where f = both_files and root = "[''sb'']" and cs = False
      and ex = False and g = "both_files([''sb'', ''usr'', ''lib'', ''os-release''] := None)"]
    OSrelease_first_file[where f = Map.empty and root = "[''sb'']" and cs = False and ex = True]
  from t(1) 1 have a: "OSrelease_init [''sb''] False False both_files
       = Inr \<lparr>os_root = [''sb''], os_case_sensitive = False, os_exact = False,
              os_fname = ''/sb/etc/os-release'', os_data = [(''ID'', ''alpine'')]\<rparr>"
    by (simp add: parsed_from_def etc_path read_file_def both_files_stat
        parse_alpine[simplified] path_str_def)
  from t(2) 2 have b: "OSrelease_init [''sb''] False False
         (both_files([''sb'', ''etc'', ''os-release''] := None))
       = Inr \<lparr>os_root = [''sb''], os_case_sensitive = False, os_exact = False,
              os_fname = ''/sb/usr/lib/os-release'', os_data = [(''ID'', ''other'')]\<rparr>"
    by (simp add: parsed_from_def usr_path read_file_def both_files_stat
        parse_other[simplified] path_str_def)
  from t(3) 1 4 have c: "OSrelease_init [''sb''] False False
         (both_files([''sb'', ''usr'', ''lib'', ''os-release''] := None))
       = OSrelease_init [''sb''] False False both_files"
    by simp
  from t(4) empty_exists obtain osr where o: "OSrelease_init [''sb''] False True Map.empty = Inr osr"
    "\<forall>attr. attr \<notin> set attribute_names \<longrightarrow>
            OSrelease_lookup osr attr =
              (if (if False then attr else upper attr) = ''NAME'' then Inr (Val ''Linux'')
               else if (if False then attr else upper attr) = ''ID'' then Inr (Val ''linux'')
               else if (if False then attr else upper attr) = ''PRETTY_NAME''
               then Inr (Val ''Linux'')
               else if True
               then Inl (AttributeError (''module '' @ [CHR 0x27] @ ''OSrelease'' @ [CHR 0x27]
                      @ '' has no attribute '' @ [CHR 0x27] @ (if False then attr else upper attr)
                      @ [CHR 0x27]))
               else Inr (Val []))"
    by blast
  from o(2)[rule_format, OF n(1)] u
  have d: "OSrelease_lookup osr ''name'' = Inr (Val ''Linux'')"
    by simp
  from o(2)[rule_format, OF n(2)] u
  have e: "OSrelease_lookup osr ''version_id''
             = Inl (AttributeError (''module '' @ [CHR 0x27] @ ''OSrelease'' @ [CHR 0x27]
                      @ '' has no attribute '' @ [CHR 0x27] @ ''VERSION_ID'' @ [CHR 0x27]))"
    by simp
  from 1 2 4 n empty_exists a b c o(1) d e show ?thesis by blast
qed

text \<open>
  C2 as the claim words it fails for the names of the object's own attributes: with
  neither file, \<^verbatim>\<open>o.file\<close> is the bound method and not the empty string, and
  \<^verbatim>\<open>o.parms\<close> raises nothing in exact mode.
\<close>

theorem OSrelease_first_file_counterexample:
  "\<not> exists Map.empty (joinpath [''sb''] ''etc/os-release'')
   \<and> \<not> exists Map.empty (joinpath [''sb''] ''usr/lib/os-release'')
   \<and> upper ''file'' \<notin> {''NAME'', ''ID'', ''PRETTY_NAME''}
   \<and> upper ''parms'' \<notin> {''NAME'', ''ID'', ''PRETTY_NAME''}
   \<and> (\<exists>osr. OSrelease_init [''sb''] False False Map.empty = Inr osr
         \<and> OSrelease_lookup osr ''file'' = Inr (Method ''file''))
   \<and> (\<exists>osr. OSrelease_init [''sb''] False True Map.empty = Inr osr
         \<and> OSrelease_lookup osr ''parms'' = Inr (Method ''parms''))"
  using OSrelease_init_neither[OF empty_exists, of False False]
    OSrelease_init_neither[OF empty_exists, of False True] empty_exists
  by (simp add: OSrelease_lookup_def upper_def upper_char_def)

subsection \<open>DistroDocker.update\<close>

lemma update_updated: "dd_updated self \<Longrightarrow> update self h = (Inr self, h)"
  by (simp add: update_def ok_def)

lemma update_n_updated: "dd_updated self \<Longrightarrow> update_n n self h = (Inr self, h)"
  by (induction n) (simp_all add: ok_def andthen_def update_updated)

lemma update_first:
  "\<not> dd_updated self \<Longrightarrow>
   update self h = andthen (update_distro self) (\<lambda>u. ok (self\<lparr>dd_updated := True\<rparr>)) h"
  by (simp add: update_def)

lemma update_n_first:
  assumes "\<not> dd_updated self"
  shows "update_n (Suc n) self h =
           andthen (update_distro self) (\<lambda>u. ok (self\<lparr>dd_updated := True\<rparr>)) h"
proof (cases "update_distro self h")
  case (Pair r h1)
  show ?thesis
  proof (cases r)
    case (Inl e)
    with Pair assms show ?thesis
      by (simp add: update_first andthen_def)
  next
    case (Inr u)
    have "dd_updated (self\<lparr>dd_updated := True\<rparr>)" by simp
    from update_n_updated[OF this] Inr Pair assms show ?thesis
      by (simp add: update_first andthen_def ok_def)
  qed
qed

lemma run_cmd_ran: "ran (snd (run_cmd cmd wd h)) = ran h @ [(cmd, wd)]"
  by (simp add: run_cmd_def split: prod.splits option.splits)

lemma exec_ran:
  "ran (snd (exec self cmd admin h)) =
     ran h @ [([prog self, ''exec''] @ (if admin then [''--fakeroot'', ''--writable''] else [])
               @ [path_str (image_path self)]
               @ (case cmd of CmdStr s \<Rightarrow> py_split s | CmdList l \<Rightarrow> l), [])]"
  by (simp add: exec_def Let_def run_cmd_ran)

lemma update_distro_ran:
  "ran (snd (update_distro self h)) =
     ran h @ (case distro self of
                Alpine \<Rightarrow> [([prog self, ''exec'', ''--fakeroot'', ''--writable'',
                              path_str (image_path self), ''apk'', ''update''], [])]
              | Ubuntu \<Rightarrow> [([prog self, ''exec'', ''--fakeroot'', ''--writable'',
                              path_str (image_path self), ''apt'', ''-y'', ''update''], [])]
              | _ \<Rightarrow> [])"
  by (cases "distro self")
     (simp_all add: update_distro_def ok_def exec_ran py_split_def is_space_def)

lemma andthen_Inr:
  "andthen m k h = (Inr y, h') \<longleftrightarrow> (\<exists>x h1. m h = (Inr x, h1) \<and> k x h1 = (Inr y, h'))"
  by (auto simp: andthen_def split: prod.splits sum.splits)

lemma call_extra_updated:
  "dd_updated self \<Longrightarrow> call_extra fn_name self h = (Inr self', h') \<Longrightarrow> self' = self"
  by (auto simp: call_extra_def install_def upgrade_def andthen_Inr ok_def update_updated
        split: if_splits)

lemma run_extras_updated:
  "dd_updated self \<Longrightarrow> run_extras fns self h = (Inr self', h') \<Longrightarrow> self' = self"
proof (induction fns arbitrary: h)
  case Nil
  then show ?case by (simp add: ok_def)
next
  case (Cons fn_name fns)
  from Cons.prems(2) obtain s1 h1 where
    1: "call_extra fn_name self h = (Inr s1, h1)" and 2: "run_extras fns s1 h1 = (Inr self', h')"
    by (auto simp: andthen_Inr)
  from call_extra_updated[OF Cons.prems(1) 1] have "s1 = self" .
  with 2 Cons.IH[OF Cons.prems(1)] show ?case by simp
qed

text \<open>
  C4. On an object that has not updated yet, any number \<open>n \<ge> 1\<close> of calls of
  \<^verbatim>\<open>update()\<close> does what one run of \<^verbatim>\<open>update_distro\<close> followed by setting
  the flag does, and the log of commands grows by the distribution's one update command
  (by none where \<^verbatim>\<open>update_distro\<close> is the empty base method). Once the flag is set,
  \<^verbatim>\<open>update()\<close> changes nothing in any state of the host, and the flag stays set
  through every other step of the build.
\<close>

theorem update_memoized:
  "(\<not> dd_updated self \<and> 1 \<le> n \<longrightarrow>
      update_n n self h =
        andthen (update_distro self) (\<lambda>u. ok (self\<lparr>dd_updated := True\<rparr>)) h
      \<and> ran (snd (update_n n self h)) =
          ran h @ (case distro self of
                     Alpine \<Rightarrow> [([prog self, ''exec'', ''--fakeroot'', ''--writable'',
                                   path_str (image_path self), ''apk'', ''update''], [])]
                   | Ubuntu \<Rightarrow> [([prog self, ''exec'', ''--fakeroot'', ''--writable'',
                                   path_str (image_path self), ''apt'', ''-y'', ''update''], [])]
                   | _ \<Rightarrow> []))
   \<and> (dd_updated self \<longrightarrow> update self h = (Inr self, h))
   \<and> (dd_updated self \<and> run_extras fns self h = (Inr self', h') \<longrightarrow> dd_updated self')"
proof -
  have "update_n n self h =
          andthen (update_distro self) (\<lambda>u. ok (self\<lparr>dd_updated := True\<rparr>)) h"
    if "\<not> dd_updated self" "1 \<le> n"
    using that update_n_first[of self "n - 1" h] by simp
  moreover
  have "ran (snd (andthen (update_distro self) (\<lambda>u. ok (self\<lparr>dd_updated := True\<rparr>)) h))
        = ran (snd (update_distro self h))"
    by (simp add: andthen_def ok_def split: prod.splits sum.splits)
  moreover
  have "dd_updated self'" if "dd_updated self" "run_extras fns self h = (Inr self', h')"
    using run_extras_updated[OF that] that(1) by simp
  ultimately show ?thesis
    by (simp add: update_updated update_distro_ran)
qed

theorem update_memoized_witness:
  "\<not> dd_updated example_sandbox \<and> (1::nat) \<le> 3
   \<and> update_n 3 example_sandbox example_host =
       (Inr (example_sandbox\<lparr>dd_updated := True\<rparr>),
        example_host\<lparr>ran := [([''/usr/bin/singularity'', ''exec'', ''--fakeroot'', ''--writable'',
                                 ''/work/sb'', ''apt'', ''-y'', ''update''], [])]\<rparr>)
   \<and> dd_updated (example_sandbox\<lparr>dd_updated := True\<rparr>)
   \<and> update (example_sandbox\<lparr>dd_updated := True\<rparr>) example_host
       = (Inr (example_sandbox\<lparr>dd_updated := True\<rparr>), example_host)
   \<and> run_extras [''upgrade''] (example_sandbox\<lparr>dd_updated := True\<rparr>) example_host
       = (Inr (example_sandbox\<lparr>dd_updated := True\<rparr>),
          example_host\<lparr>ran := [([''/usr/bin/singularity'', ''exec'', ''--fakeroot'',
                                   ''--writable'', ''/work/sb'', ''apt'', ''-y'', ''upgrade''],
                                  [])]\<rparr>)"
  using update_memoized[of example_sandbox 3 example_host]
    update_memoized[of "example_sandbox\<lparr>dd_updated := True\<rparr>" 3 example_host
      "[''upgrade'']" "example_sandbox\<lparr>dd_updated := True\<rparr>"
      "example_host\<lparr>ran := [([''/usr/bin/singularity'', ''exec'', ''--fakeroot'',
                                   ''--writable'', ''/work/sb'', ''apt'', ''-y'', ''upgrade''],
                                  [])]\<rparr>"]
  by (simp add: example_sandbox_def example_host_def andthen_def ok_def update_distro_def exec_def
      run_cmd_def py_split_def is_space_def path_str_def Let_def call_extra_def upgrade_def
      update_def upgrade_distro_def)

subsection \<open>UnifiNetworkController\<close>

lemma unc_scan_keeps: "snd st \<Longrightarrow> snd (unc_scan names st)"
proof (induction names arbitrary: st)
  case Nil
  then show ?case by (cases st) simp
next
  case (Cons name names)
  obtain hv un where st: "st = (hv, un)" by (cases st)
  with Cons.prems have un: "un" by simp
  show ?case
    using st un Cons.IH[of "(hv, True)"] Cons.IH[of "(True, True)"]
    by (cases hv; simp add: Let_def)
qed

lemma unc_scan_unifi: "''unifi'' \<in> set names \<Longrightarrow> snd (unc_scan names st)"
proof (induction names arbitrary: st)
  case Nil
  then show ?case by simp
next
  case (Cons name names)
  obtain hv un where st: "st = (hv, un)" by (cases st)
  show ?case
  proof (cases "name = ''unifi''")
    case True
    with st unc_scan_keeps[of "(hv, True)" names] show ?thesis
      by (cases hv; simp add: Let_def)
  next
    case False
    with Cons.prems have "''unifi'' \<in> set names" by simp
    from Cons.IH[OF this] st False show ?thesis
      by (simp add: Let_def)
  qed
qed

text \<open>
  C3. When the user is \<^verbatim>\<open>root\<close>, or the process snapshot contains the name
  \<^verbatim>\<open>unifi\<close>, the constructor raises \<^verbatim>\<open>RuntimeError\<close> and leaves the host as
  it was: no command has been started, so the build tool has not run, and the file
  system is unchanged, so no target path has come into existence.
\<close>

theorem UnifiNetworkController_prechecks:
  "(user h = ''root'' \<longrightarrow>
      UnifiNetworkController_init ip h =
        (Inl (RuntimeError ''UNC does not support root-owned containers''), h))
   \<and> (user h \<noteq> ''root'' \<and> ps_bins (procs h) = Inr names \<and> ''unifi'' \<in> set names \<longrightarrow>
      UnifiNetworkController_init ip h =
        (Inl (RuntimeError (''UNC requires all existing running versions ''
                            @ ''on this host to be stopped before installing'')), h))
   \<and> (user h = ''root'' \<or> (\<exists>ns. ps_bins (procs h) = Inr ns \<and> ''unifi'' \<in> set ns) \<longrightarrow>
      (\<exists>e. fst (UnifiNetworkController_init ip h) = Inl e) \<and>
      ran (snd (UnifiNetworkController_init ip h)) = ran h \<and>
      files (snd (UnifiNetworkController_init ip h)) = files h)"
proof -
  have a: "UnifiNetworkController_init ip h =
        (Inl (RuntimeError ''UNC does not support root-owned containers''), h)"
    if "user h = ''root''"
    using that by (simp add: UnifiNetworkController_init_def)
  have b: "UnifiNetworkController_init ip h =
        (Inl (RuntimeError (''UNC requires all existing running versions ''
                            @ ''on this host to be stopped before installing'')), h)"
    if "user h \<noteq> ''root''" "ps_bins (procs h) = Inr ns" "''unifi'' \<in> set ns" for ns
    using that unc_scan_unifi[OF that(3), of "(False, False)"]
    by (simp add: UnifiNetworkController_init_def)
  have c: "(\<exists>e. fst (UnifiNetworkController_init ip h) = Inl e) \<and>
      ran (snd (UnifiNetworkController_init ip h)) = ran h \<and>
      files (snd (UnifiNetworkController_init ip h)) = files h"
    if "user h = ''root'' \<or> (\<exists>ns. ps_bins (procs h) = Inr ns \<and> ''unifi'' \<in> set ns)"
  proof (cases "user h = ''root''")
    case True
    from a[OF this] show ?thesis by simp
  next
    case False
    with that obtain ns where "ps_bins (procs h) = Inr ns" "''unifi'' \<in> set ns" by blast
    from b[OF False this] show ?thesis by simp
  qed
  from a b c show ?thesis by blast
qed

theorem UnifiNetworkController_prechecks_witness:
  "user (example_host\<lparr>user := ''root''\<rparr>) = ''root''
   \<and> UnifiNetworkController_init ''unc'' (example_host\<lparr>user := ''root''\<rparr>) =
        (Inl (RuntimeError ''UNC does not support root-owned containers''),
         example_host\<lparr>user := ''root''\<rparr>)
   \<and> user (example_host\<lparr>procs := [(''812'', ProcDir (Present (Inr (''unifi'' @ [CHR 0x00]))))]\<rparr>)
       \<noteq> ''root''
   \<and> ps_bins (procs (example_host\<lparr>procs :=
         [(''812'', ProcDir (Present (Inr (''unifi'' @ [CHR 0x00]))))]\<rparr>)) = Inr [''unifi'']
   \<and> UnifiNetworkController_init ''unc''
        (example_host\<lparr>procs := [(''812'', ProcDir (Present (Inr (''unifi'' @ [CHR 0x00]))))]\<rparr>) =
        (Inl (RuntimeError (''UNC requires all existing running versions ''
                            @ ''on this host to be stopped before installing'')),
         example_host\<lparr>procs := [(''812'', ProcDir (Present (Inr (''unifi'' @ [CHR 0x00]))))]\<rparr>)"
proof -
  have p: "ps_bins (procs (example_host\<lparr>procs :=
         [(''812'', ProcDir (Present (Inr (''unifi'' @ [CHR 0x00]))))]\<rparr>)) = Inr [''unifi'']"
    by (simp add: ps_bins_def first_field_def is_digit_def set_add_def)
  have u: "user (example_host\<lparr>procs :=
         [(''812'', ProcDir (Present (Inr (''unifi'' @ [CHR 0x00]))))]\<rparr>) \<noteq> ''root''"
    by (simp add: example_host_def)
  from UnifiNetworkController_prechecks[of "example_host\<lparr>user := ''root''\<rparr>" "''unc''"]
    UnifiNetworkController_prechecks[of
      "example_host\<lparr>procs := [(''812'', ProcDir (Present (Inr (''unifi'' @ [CHR 0x00]))))]\<rparr>"
      "''unc''" "[''unifi'']"] p u
  show ?thesis by simp
qed

subsection \<open>Homebridge\<close>

lemma get_platform_config:
  "((case map_of kvs ''platform'' of Some v \<Rightarrow> v | None \<Rightarrow> JStr []) = JStr ''config'')
   = is_config (JObj kvs)"
  by (auto split: option.splits)

lemma set_log_Some: "set_log pls = Inr (Some pls1) \<Longrightarrow> list_ex is_config pls"
proof (induction pls arbitrary: pls1)
  case Nil
  then show ?case by simp
next
  case (Cons pl pls)
  show ?case
  proof (cases pl)
    case (JObj kvs)
    show ?thesis
    proof (cases "is_config (JObj kvs)")
      case True
      with JObj show ?thesis by simp
    next
      case False
      with Cons.prems JObj obtain pls2 where "set_log pls = Inr (Some pls2)"
        by (auto simp: get_platform_config simp del: is_config.simps
            split: sum.splits option.splits)
      from Cons.IH[OF this] show ?thesis by simp
    qed
  qed (use Cons.prems in auto)
qed

lemma set_log_objects:
  "list_all is_object pls \<Longrightarrow> \<not> list_ex is_config pls \<Longrightarrow> set_log pls = Inr None"
proof (induction pls)
  case Nil
  then show ?case by simp
next
  case (Cons pl pls)
  then show ?case
    by (cases pl) (auto simp: get_platform_config simp del: is_config.simps)
qed

lemma add_log_Inr: "add_log data = Inr data1 \<Longrightarrow> has_config_platform data"
proof -
  assume a: "add_log data = Inr data1"
  then obtain x where x: "subscript data ''platforms'' = Inr x"
    by (auto simp: add_log_def split: sum.splits)
  with a obtain pls where p: "json_iter x = Inr pls"
    by (auto simp: add_log_def split: sum.splits)
  with a x obtain pls1 where s: "set_log pls = Inr (Some pls1)"
    by (auto simp: add_log_def split: sum.splits option.splits)
  from set_log_Some[OF s] have c: "list_ex is_config pls" .
  show ?thesis
  proof (cases x)
    case (JArr xs)
    with p c x show ?thesis
      by (simp add: has_config_platform_def json_iter_def)
  next
    case (JObj kvs)
    with p c show ?thesis
      by (auto simp: json_iter_def list_ex_iff)
  next
    case (JStr str)
    with p c show ?thesis
      by (auto simp: json_iter_def list_ex_iff)
  qed (use p in \<open>auto simp: json_iter_def\<close>)
qed

lemma add_log_objects:
  "subscript data ''platforms'' = Inr (JArr pls) \<Longrightarrow> list_all is_object pls \<Longrightarrow>
   \<not> list_ex is_config pls \<Longrightarrow>
   add_log data = Inl (RuntimeError ''unable to add logging to config.json'')"
  by (simp add: add_log_def json_iter_def set_log_objects)

text \<open>
  C5. When the \<^verbatim>\<open>config.json\<close> that was read has no entry in its \<^verbatim>\<open>platforms\<close>
  list whose \<^verbatim>\<open>platform\<close> is \<^verbatim>\<open>config\<close>, the step raises and returns the host
  as it was: the staging file has not been written and the move has not been started.
  When the list holds objects only, the exception is the \<^verbatim>\<open>RuntimeError\<close> of the
  check after the loop.
\<close>

theorem Homebridge_config_mandatory:
  "(read_file (joinpath (image_path self) ''var/lib/homebridge/config.json'') (files h) = Inr s \<and>
    json_load s = Inr data \<and> \<not> has_config_platform data \<longrightarrow>
      (\<exists>e. Homebridge_config json_load json_dumps self h = (Inl e, h)))
   \<and> (read_file (joinpath (image_path self) ''var/lib/homebridge/config.json'') (files h) = Inr s \<and>
    json_load s = Inr data \<and> subscript data ''platforms'' = Inr (JArr pls) \<and>
    list_all is_object pls \<and> \<not> list_ex is_config pls \<longrightarrow>
      Homebridge_config json_load json_dumps self h =
        (Inl (RuntimeError ''unable to add logging to config.json''), h))"
proof -
  have a: "\<exists>e. Homebridge_config json_load json_dumps self h = (Inl e, h)"
    if "read_file (joinpath (image_path self) ''var/lib/homebridge/config.json'') (files h) = Inr s"
      "json_load s = Inr data" "\<not> has_config_platform data"
  proof (cases "add_log data")
    case (Inl e)
    with that show ?thesis by (simp add: Homebridge_config_def)
  next
    case (Inr data1)
    from add_log_Inr[OF this] that(3) show ?thesis by simp
  qed
  have b: "Homebridge_config json_load json_dumps self h =
        (Inl (RuntimeError ''unable to add logging to config.json''), h)"
    if "read_file (joinpath (image_path self) ''var/lib/homebridge/config.json'') (files h) = Inr s"
      "json_load s = Inr data" "subscript data ''platforms'' = Inr (JArr pls)"
      "list_all is_object pls" "\<not> list_ex is_config pls"
    using that add_log_objects[OF that(3,4,5)] by (simp add: Homebridge_config_def)
  from a b show ?thesis by blast
qed

theorem Homebridge_config_mandatory_witness:
  "read_file (joinpath (image_path example_sandbox) ''var/lib/homebridge/config.json'')
     (files (example_host\<lparr>files := (files example_host)
        ([''work'', ''sb'', ''var'', ''lib'', ''homebridge'', ''config.json''] \<mapsto> File ''{}'' 420)\<rparr>))
     = Inr ''{}''
   \<and> \<not> has_config_platform example_config
   \<and> subscript example_config ''platforms'' = Inr (JArr [JObj [(''platform'', JStr ''Camera'')]])
   \<and> list_all is_object [JObj [(''platform'', JStr ''Camera'')]]
   \<and> \<not> list_ex is_config [JObj [(''platform'', JStr ''Camera'')]]
   \<and> Homebridge_config (\<lambda>s. Inr example_config) (\<lambda>d. ''{}'') example_sandbox
        (example_host\<lparr>files := (files example_host)
        ([''work'', ''sb'', ''var'', ''lib'', ''homebridge'', ''config.json''] \<mapsto> File ''{}'' 420)\<rparr>)
       = (Inl (RuntimeError ''unable to add logging to config.json''),
          example_host\<lparr>files := (files example_host)
        ([''work'', ''sb'', ''var'', ''lib'', ''homebridge'', ''config.json''] \<mapsto> File ''{}'' 420)\<rparr>)"
proof -
  have r: "read_file (joinpath (image_path example_sandbox) ''var/lib/homebridge/config.json'')
     (files (example_host\<lparr>files := (files example_host)
        ([''work'', ''sb'', ''var'', ''lib'', ''homebridge'', ''config.json''] \<mapsto> File ''{}'' 420)\<rparr>))
     = Inr ''{}''"
    by (simp add: read_file_def stat_def locate_def node_at_def example_sandbox_def
        example_host_def joinpath_def is_abs_def startswith_def parts_def)
  have c: "\<not> has_config_platform example_config"
    "subscript example_config ''platforms'' = Inr (JArr [JObj [(''platform'', JStr ''Camera'')]])"
    "list_all is_object [JObj [(''platform'', JStr ''Camera'')]]"
    "\<not> list_ex is_config [JObj [(''platform'', JStr ''Camera'')]]"
    by (simp_all add: has_config_platform_def example_config_def subscript_def)
  from Homebridge_config_mandatory[of example_sandbox
      "example_host\<lparr>files := (files example_host)
        ([''work'', ''sb'', ''var'', ''lib'', ''homebridge'', ''config.json''] \<mapsto> File ''{}'' 420)\<rparr>"
      "''{}''" "\<lambda>s. Inr example_config" example_config "\<lambda>d. ''{}''"
      "[JObj [(''platform'', JStr ''Camera'')]]"] r c
  show ?thesis by simp
qed

subsection \<open>main\<close>

lemma sb_args_loop_append:
  "sb_args_loop (xs @ ys) sb = sb_args_loop ys (sb_args_loop xs sb)"
  by (induction xs arbitrary: sb) (simp_all add: Let_def)

lemma sb_args_loop_ignored:
  "CHR ''='' \<notin> set kv \<Longrightarrow> sb_args_loop (xs @ kv # ys) sb = sb_args_loop (xs @ ys) sb"
  by (simp add: sb_args_loop_append)

lemma main_cong:
  "arg_list a1 = arg_list a2 \<Longrightarrow> arg_name a1 = arg_name a2 \<Longrightarrow> sb_args a1 = sb_args a2 \<Longrightarrow>
   main json_load json_dumps a1 h = main json_load json_dumps a2 h"
  by (simp add: main_def cong: prod.case_cong sum.case_cong)

text \<open>
  C10. An option without \<^verbatim>\<open>=\<close> is ignored: the keyword arguments are the ones
  built without it, and so are the outcome of \<^verbatim>\<open>main\<close> and the host it leaves.
\<close>

theorem option_without_equals_ignored:
  "CHR ''='' \<notin> set kv \<longrightarrow>
     sb_args (a\<lparr>arg_option := xs @ kv # ys\<rparr>) = sb_args (a\<lparr>arg_option := xs @ ys\<rparr>)
     \<and> main json_load json_dumps (a\<lparr>arg_option := xs @ kv # ys\<rparr>) h
         = main json_load json_dumps (a\<lparr>arg_option := xs @ ys\<rparr>) h"
proof
  assume k: "CHR ''='' \<notin> set kv"
  have s: "sb_args (a\<lparr>arg_option := xs @ kv # ys\<rparr>) = sb_args (a\<lparr>arg_option := xs @ ys\<rparr>)"
    by (simp add: sb_args_def sb_args_loop_ignored[OF k])
  show "sb_args (a\<lparr>arg_option := xs @ kv # ys\<rparr>) = sb_args (a\<lparr>arg_option := xs @ ys\<rparr>)
     \<and> main json_load json_dumps (a\<lparr>arg_option := xs @ kv # ys\<rparr>) h
         = main json_load json_dumps (a\<lparr>arg_option := xs @ ys\<rparr>) h"
    using s main_cong[OF _ _ s] by simp
qed

lemma map_of_update: "map_of (AList.update k v al) k' = (if k' = k then Some v else map_of al k')"
  by (simp add: update_conv')

lemma sb_args_loop_others:
  "list_all (\<lambda>kv. \<not> is_upgrade kv) ys \<Longrightarrow>
   map_of (sb_args_loop ys sb) ''upgrade'' = map_of sb ''upgrade''"
proof (induction ys arbitrary: sb)
  case Nil
  then show ?case by simp
next
  case (Cons kv ys)
  then show ?case
    by (auto simp: Let_def is_upgrade_def map_of_update)
qed

lemma partition_upgrade:
  "takeWhile (\<lambda>c. c \<noteq> CHR ''='') (''upgrade='' @ v) = ''upgrade''"
  "drop 1 (dropWhile (\<lambda>c. c \<noteq> CHR ''='') (''upgrade='' @ v)) = v"
  by simp_all

lemma sb_args_loop_upgrade:
  "list_all (\<lambda>kv. \<not> is_upgrade kv) ys \<Longrightarrow>
   map_of (sb_args_loop (xs @ (''upgrade='' @ v) # ys) sb) ''upgrade''
     = Some (Bool (lower v \<in> {''y'', ''yes'', ''t'', ''true''}))"
  using partition_upgrade[of v]
  by (simp add: sb_args_loop_append sb_args_loop_others Let_def map_of_update
      del: append.simps takeWhile.simps dropWhile.simps)

text \<open>
  C9, as amended. For a command line that does not ask for the listing and has an option
  \<^verbatim>\<open>upgrade=v\<close>, the keyword argument \<^verbatim>\<open>upgrade\<close> is the truth value of "\<open>v\<close> in
  lower case is one of \<^verbatim>\<open>y\<close>, \<^verbatim>\<open>yes\<close>, \<^verbatim>\<open>t\<close>, \<^verbatim>\<open>true\<close>" for the last
  such option. With the profile \<^verbatim>\<open>alpine\<close>, \<^verbatim>\<open>fedora\<close> or \<^verbatim>\<open>ubuntu\<close> and no
  option key but \<^verbatim>\<open>image_path\<close>, \<^verbatim>\<open>tag\<close>, \<^verbatim>\<open>pkgs\<close> and \<^verbatim>\<open>upgrade\<close>, the
  constructor of the profile runs with that truth value. With another key beside it, or
  with the profile \<^verbatim>\<open>unc\<close> or \<^verbatim>\<open>hb\<close>, whose constructors have no such
  parameter, the call raises \<^verbatim>\<open>TypeError\<close>, and with any other profile name the
  choice of the class raises \<^verbatim>\<open>KeyError\<close>: no constructor runs, and \<^verbatim>\<open>main\<close> ends
  in the parser's error with the host as it was.
\<close>

theorem upgrade_option_coerced:
  "\<not> arg_list a \<and> arg_option a = xs @ (''upgrade='' @ v) # ys \<and>
   list_all (\<lambda>kv. \<not> is_upgrade kv) ys \<longrightarrow>
     map_of (sb_args a) ''upgrade'' = Some (Bool (lower v \<in> {''y'', ''yes'', ''t'', ''true''}))
     \<and> ((name, init) \<in> {(''alpine'', Alpine_init), (''fedora'', Fedora_init),
                           (''ubuntu'', Ubuntu_init)} \<and>
         arg_name a = name \<and>
         filter (\<lambda>k. k \<notin> {''image_path'', ''tag'', ''pkgs'', ''upgrade''}) (map fst (sb_args a)) = []
          \<longrightarrow> main json_load json_dumps a h =
                (case init (str_arg (sb_args a) ''image_path'' [])
                        (str_arg (sb_args a) ''tag'' ''latest'') (str_arg (sb_args a) ''pkgs'' [])
                        (lower v \<in> {''y'', ''yes'', ''t'', ''true''}) h of
                   (Inl e, h1) \<Rightarrow> (ParserError name e, h1)
                 | (Inr self, h1) \<Rightarrow> (Built, h1)))
     \<and> (arg_name a \<in> {''alpine'', ''fedora'', ''ubuntu''} \<and>
         filter (\<lambda>k. k \<notin> {''image_path'', ''tag'', ''pkgs'', ''upgrade''}) (map fst (sb_args a))
           = k # ks
          \<longrightarrow> main json_load json_dumps a h = (ParserError (arg_name a) (TypeError k), h))
     \<and> (arg_name a \<in> {''unc'', ''hb''}
          \<longrightarrow> (\<exists>k. main json_load json_dumps a h = (ParserError (arg_name a) (TypeError k), h)))
     \<and> (arg_name a \<notin> {''alpine'', ''fedora'', ''ubuntu'', ''unc'', ''hb''}
          \<longrightarrow> main json_load json_dumps a h
                = (ParserError (arg_name a) (KeyError (arg_name a)), h))"
proof
  assume h: "\<not> arg_list a \<and> arg_option a = xs @ (''upgrade='' @ v) # ys \<and>
             list_all (\<lambda>kv. \<not> is_upgrade kv) ys"
  then have m: "map_of (sb_args a) ''upgrade''
                  = Some (Bool (lower v \<in> {''y'', ''yes'', ''t'', ''true''}))"
    using sb_args_loop_upgrade[of ys xs v] by (simp add: sb_args_def)
  then have b: "bool_arg (sb_args a) ''upgrade'' False
                  = (lower v \<in> {''y'', ''yes'', ''t'', ''true''})"
    by (simp add: bool_arg_def)
  from h have l: "\<not> arg_list a" by simp
  have 1: "main json_load json_dumps a h =
                (case init (str_arg (sb_args a) ''image_path'' [])
                        (str_arg (sb_args a) ''tag'' ''latest'') (str_arg (sb_args a) ''pkgs'' [])
                        (lower v \<in> {''y'', ''yes'', ''t'', ''true''}) h of
                   (Inl e, h1) \<Rightarrow> (ParserError name e, h1)
                 | (Inr self, h1) \<Rightarrow> (Built, h1))"
    if "(name, init) \<in> {(''alpine'', Alpine_init), (''fedora'', Fedora_init),
                           (''ubuntu'', Ubuntu_init)}"
      "arg_name a = name"
      "filter (\<lambda>k. k \<notin> {''image_path'', ''tag'', ''pkgs'', ''upgrade''}) (map fst (sb_args a)) = []"
    using that l b by (auto simp: main_def call_distro_def)
  have 2: "main json_load json_dumps a h = (ParserError (arg_name a) (TypeError k), h)"
    if "arg_name a \<in> {''alpine'', ''fedora'', ''ubuntu''}"
      "filter (\<lambda>k. k \<notin> {''image_path'', ''tag'', ''pkgs'', ''upgrade''}) (map fst (sb_args a))
           = k # ks"
    using that l by (auto simp: main_def call_distro_def)
  have 3: "\<exists>k. main json_load json_dumps a h = (ParserError (arg_name a) (TypeError k), h)"
    if n: "arg_name a \<in> {''unc'', ''hb''}"
  proof -
    from m have "''upgrade'' \<in> set (map fst (sb_args a))"
      by (metis map_of_eq_None_iff option.distinct(1) set_map)
    then have "''upgrade'' \<in> set (filter (\<lambda>k. k \<noteq> ''image_path'') (map fst (sb_args a)))"
      by simp
    then obtain k ks where "filter (\<lambda>k. k \<noteq> ''image_path'') (map fst (sb_args a)) = k # ks"
      by (cases "filter (\<lambda>k. k \<noteq> ''image_path'') (map fst (sb_args a))") auto
    with n l show ?thesis
      by (auto simp: main_def call_app_def)
  qed
  have 4: "main json_load json_dumps a h = (ParserError (arg_name a) (KeyError (arg_name a)), h)"
    if "arg_name a \<notin> {''alpine'', ''fedora'', ''ubuntu'', ''unc'', ''hb''}"
    using that l by (simp add: main_def)
  from m 1 2 3 4
  show "map_of (sb_args a) ''upgrade'' = Some (Bool (lower v \<in> {''y'', ''yes'', ''t'', ''true''}))
     \<and> ((name, init) \<in> {(''alpine'', Alpine_init), (''fedora'', Fedora_init),
                           (''ubuntu'', Ubuntu_init)} \<and>
         arg_name a = name \<and>
         filter (\<lambda>k. k \<notin> {''image_path'', ''tag'', ''pkgs'', ''upgrade''}) (map fst (sb_args a)) = []
          \<longrightarrow> main json_load json_dumps a h =
                (case init (str_arg (sb_args a) ''image_path'' [])
                        (str_arg (sb_args a) ''tag'' ''latest'') (str_arg (sb_args a) ''pkgs'' [])
                        (lower v \<in> {''y'', ''yes'', ''t'', ''true''}) h of
                   (Inl e, h1) \<Rightarrow> (ParserError name e, h1)
                 | (Inr self, h1) \<Rightarrow> (Built, h1)))
     \<and> (arg_name a \<in> {''alpine'', ''fedora'', ''ubuntu''} \<and>
         filter (\<lambda>k. k \<notin> {''image_path'', ''tag'', ''pkgs'', ''upgrade''}) (map fst (sb_args a))
           = k # ks
          \<longrightarrow> main json_load json_dumps a h = (ParserError (arg_name a) (TypeError k), h))
     \<and> (arg_name a \<in> {''unc'', ''hb''}
          \<longrightarrow> (\<exists>k. main json_load json_dumps a h = (ParserError (arg_name a) (TypeError k), h)))
     \<and> (arg_name a \<notin> {''alpine'', ''fedora'', ''ubuntu'', ''unc'', ''hb''}
          \<longrightarrow> main json_load json_dumps a h
                = (ParserError (arg_name a) (KeyError (arg_name a)), h))"
    by blast
qed

theorem option_without_equals_ignored_witness:
  "CHR ''='' \<notin> set ''verbose''
   \<and> sb_args example_args = [(''image_path'', Str ''ubuntu''), (''tag'', Str ''jammy''),
                               (''upgrade'', Bool True)]
   \<and> sb_args example_args = sb_args (example_args\<lparr>arg_option := [''tag=jammy'', ''upgrade=YES'']\<rparr>)
   \<and> main (\<lambda>s. Inl JSONDecodeError) (\<lambda>d. []) example_args example_host
       = main (\<lambda>s. Inl JSONDecodeError) (\<lambda>d. [])
           (example_args\<lparr>arg_option := [''tag=jammy'', ''upgrade=YES'']\<rparr>) example_host"
proof -
  have e: "example_args\<lparr>arg_option := [''tag=jammy''] @ ''verbose'' # [''upgrade=YES'']\<rparr>
           = example_args"
    by (simp add: example_args_def)
  have k: "CHR ''='' \<notin> set ''verbose''" by simp
  have v: "sb_args example_args = [(''image_path'', Str ''ubuntu''), (''tag'', Str ''jammy''),
                               (''upgrade'', Bool True)]"
    by (simp add: sb_args_def example_args_def Let_def lower_def lower_char_def)
  from option_without_equals_ignored[where kv = "''verbose''" and a = example_args
      and xs = "[''tag=jammy'']" and ys = "[''upgrade=YES'']"
      and json_load = "\<lambda>s. Inl JSONDecodeError" and json_dumps = "\<lambda>d. []"
      and h = example_host] k e v
  show ?thesis by simp
qed

theorem upgrade_option_coerced_witness:
  "\<not> arg_list example_args
   \<and> arg_option example_args = [''tag=jammy'', ''verbose''] @ (''upgrade='' @ ''YES'') # []
   \<and> list_all (\<lambda>kv. \<not> is_upgrade kv) []
   \<and> lower ''YES'' \<in> {''y'', ''yes'', ''t'', ''true''}
   \<and> map_of (sb_args example_args) ''upgrade'' = Some (Bool True)
   \<and> arg_name example_args = ''ubuntu''
   \<and> filter (\<lambda>k. k \<notin> {''image_path'', ''tag'', ''pkgs'', ''upgrade''})
         (map fst (sb_args example_args)) = []
   \<and> main (\<lambda>s. Inl JSONDecodeError) (\<lambda>d. []) example_args example_host
       = (case Ubuntu_init ''ubuntu'' ''jammy'' [] True example_host of
            (Inl e, h1) \<Rightarrow> (ParserError ''ubuntu'' e, h1)
          | (Inr self, h1) \<Rightarrow> (Built, h1))
   \<and> arg_option (example_args\<lparr>arg_option := [''upgrade=yes'', ''upgrade=maybe'', ''pkgs=vim'']\<rparr>)
       = [''upgrade=yes''] @ (''upgrade='' @ ''maybe'') # [''pkgs=vim'']
   \<and> list_all (\<lambda>kv. \<not> is_upgrade kv) [''pkgs=vim'']
   \<and> lower ''maybe'' \<notin> {''y'', ''yes'', ''t'', ''true''}
   \<and> map_of (sb_args (example_args\<lparr>arg_option :=
              [''upgrade=yes'', ''upgrade=maybe'', ''pkgs=vim'']\<rparr>)) ''upgrade''
       = Some (Bool False)
   \<and> filter (\<lambda>k. k \<notin> {''image_path'', ''tag'', ''pkgs'', ''upgrade''})
         (map fst (sb_args (example_args\<lparr>arg_option := [''jobs=4''] @ (''upgrade='' @ ''yes'') # []\<rparr>)))
       = [''jobs'']
   \<and> main (\<lambda>s. Inl JSONDecodeError) (\<lambda>d. [])
         (example_args\<lparr>arg_option := [''jobs=4''] @ (''upgrade='' @ ''yes'') # []\<rparr>) example_host
       = (ParserError ''ubuntu'' (TypeError ''jobs''), example_host)
   \<and> (\<exists>k. main (\<lambda>s. Inl JSONDecodeError) (\<lambda>d. [])
             (example_args\<lparr>arg_name := ''hb''\<rparr>) example_host
           = (ParserError ''hb'' (TypeError k), example_host))
   \<and> main (\<lambda>s. Inl JSONDecodeError) (\<lambda>d. []) (example_args\<lparr>arg_name := ''debian''\<rparr>)
         example_host
       = (ParserError ''debian'' (KeyError ''debian''), example_host)"
proof -
  have l: "lower ''YES'' \<in> {''y'', ''yes'', ''t'', ''true''}"
    "lower ''maybe'' \<notin> {''y'', ''yes'', ''t'', ''true''}"
    by (simp_all add: lower_def lower_char_def)
  have a: "arg_option example_args = [''tag=jammy'', ''verbose''] @ (''upgrade='' @ ''YES'') # []"
    "arg_option (example_args\<lparr>arg_option := [''upgrade=yes'', ''upgrade=maybe'', ''pkgs=vim'']\<rparr>)
       = [''upgrade=yes''] @ (''upgrade='' @ ''maybe'') # [''pkgs=vim'']"
    "\<not> arg_list example_args" "arg_name example_args = ''ubuntu''"
    by (simp_all add: example_args_def)
  have n: "list_all (\<lambda>kv. \<not> is_upgrade kv) []" "list_all (\<lambda>kv. \<not> is_upgrade kv) [''pkgs=vim'']"
    by (simp_all add: is_upgrade_def)
  have v: "sb_args example_args = [(''image_path'', Str ''ubuntu''), (''tag'', Str ''jammy''),
                               (''upgrade'', Bool True)]"
    by (simp add: sb_args_def example_args_def Let_def lower_def lower_char_def)
  then have f: "filter (\<lambda>k. k \<notin> {''image_path'', ''tag'', ''pkgs'', ''upgrade''})
         (map fst (sb_args example_args)) = []"
    by simp
  have s: "str_arg (sb_args example_args) ''image_path'' [] = ''ubuntu''"
    "str_arg (sb_args example_args) ''tag'' ''latest'' = ''jammy''"
    "str_arg (sb_args example_args) ''pkgs'' [] = []"
    by (simp_all add: v str_arg_def)
  have j: "filter (\<lambda>k. k \<notin> {''image_path'', ''tag'', ''pkgs'', ''upgrade''})
         (map fst (sb_args (example_args\<lparr>arg_option := [''jobs=4''] @ (''upgrade='' @ ''yes'') # []\<rparr>)))
       = [''jobs'']"
    by (simp add: sb_args_def example_args_def Let_def lower_def lower_char_def)
  note t = upgrade_option_coerced[where a = example_args and xs = "[''tag=jammy'', ''verbose'']"
      and v = "''YES''" and ys = "[]" and init = Ubuntu_init and name = "''ubuntu''"
      and h = example_host and json_load = "\<lambda>s. Inl JSONDecodeError" and json_dumps = "\<lambda>d. []"
      and k = "[]" and ks = "[]"]
  from t a(1,3,4) n(1) l(1) f s
  have 1: "map_of (sb_args example_args) ''upgrade'' = Some (Bool True)"
    "main (\<lambda>s. Inl JSONDecodeError) (\<lambda>d. []) example_args example_host
       = (case Ubuntu_init ''ubuntu'' ''jammy'' [] True example_host of
            (Inl e, h1) \<Rightarrow> (ParserError ''ubuntu'' e, h1)
          | (Inr self, h1) \<Rightarrow> (Built, h1))"
    by simp_all
  from upgrade_option_coerced[where
      a = "example_args\<lparr>arg_option := [''upgrade=yes'', ''upgrade=maybe'', ''pkgs=vim'']\<rparr>"
      and xs = "[''upgrade=yes'']" and v = "''maybe''" and ys = "[''pkgs=vim'']"
      and init = Ubuntu_init and name = "''ubuntu''" and h = example_host
      and json_load = "\<lambda>s. Inl JSONDecodeError" and json_dumps = "\<lambda>d. []"
      and k = "[]" and ks = "[]"] a(2,3) n(2) l(2)
  have 2: "map_of (sb_args (example_args\<lparr>arg_option :=
              [''upgrade=yes'', ''upgrade=maybe'', ''pkgs=vim'']\<rparr>)) ''upgrade''
       = Some (Bool False)"
    by simp
  from upgrade_option_coerced[where
      a = "example_args\<lparr>arg_option := [''jobs=4''] @ (''upgrade='' @ ''yes'') # []\<rparr>"
      and xs = "[''jobs=4'']" and v = "''yes''" and ys = "[]"
      and init = Ubuntu_init and name = "''ubuntu''" and h = example_host
      and json_load = "\<lambda>s. Inl JSONDecodeError" and json_dumps = "\<lambda>d. []"
      and k = "''jobs''" and ks = "[]"] a(3,4) n(1) j
  have 3: "main (\<lambda>s. Inl JSONDecodeError) (\<lambda>d. [])
         (example_args\<lparr>arg_option := [''jobs=4''] @ (''upgrade='' @ ''yes'') # []\<rparr>) example_host
       = (ParserError ''ubuntu'' (TypeError ''jobs''), example_host)"
    by simp
  from upgrade_option_coerced[where a = "example_args\<lparr>arg_name := ''hb''\<rparr>"
      and xs = "[''tag=jammy'', ''verbose'']"
      and v = "''YES''" and ys = "[]" and init = Ubuntu_init and name = "''ubuntu''"
      and h = example_host and json_load = "\<lambda>s. Inl JSONDecodeError" and json_dumps = "\<lambda>d. []"
      and k = "[]" and ks = "[]"] a(1,3) n(1)
  have 4: "\<exists>k. main (\<lambda>s. Inl JSONDecodeError) (\<lambda>d. [])
             (example_args\<lparr>arg_name := ''hb''\<rparr>) example_host
           = (ParserError ''hb'' (TypeError k), example_host)"
    by simp
  from upgrade_option_coerced[where a = "example_args\<lparr>arg_name := ''debian''\<rparr>"
      and xs = "[''tag=jammy'', ''verbose'']"
      and v = "''YES''" and ys = "[]" and init = Ubuntu_init and name = "''ubuntu''"
      and h = example_host and json_load = "\<lambda>s. Inl JSONDecodeError" and json_dumps = "\<lambda>d. []"
      and k = "[]" and ks = "[]"] a(1,3) n(1)
  have 5: "main (\<lambda>s. Inl JSONDecodeError) (\<lambda>d. []) (example_args\<lparr>arg_name := ''debian''\<rparr>)
         example_host
       = (ParserError ''debian'' (KeyError ''debian''), example_host)"
    by simp
  from l a n f j 1 2 3 4 5 show ?thesis by simp
qed

text \<open>
  C9 as the claim words it fails. For an option that is not the last of its key: with
  \<^verbatim>\<open>-o upgrade=yes -o upgrade=no\<close> the constructor receives \<^verbatim>\<open>upgrade=False\<close>. And
  for a profile without the parameter: with \<^verbatim>\<open>-n unc -o upgrade=yes\<close> the option
  yields an error, and no constructor runs.
\<close>

theorem upgrade_option_coerced_counterexample:
  "lower ''yes'' \<in> {''y'', ''yes'', ''t'', ''true''}
   \<and> sb_args \<lparr>arg_list = False, arg_image_path = [], arg_name = ''ubuntu'',
                arg_option = [''upgrade=yes'', ''upgrade=no'']\<rparr>
       = [(''image_path'', Str ''ubuntu''), (''upgrade'', Bool False)]
   \<and> call_distro Ubuntu_init
         (sb_args \<lparr>arg_list = False, arg_image_path = [], arg_name = ''ubuntu'',
                   arg_option = [''upgrade=yes'', ''upgrade=no'']\<rparr>) example_host
       = Ubuntu_init ''ubuntu'' ''latest'' [] False example_host
   \<and> main (\<lambda>s. Inl JSONDecodeError) (\<lambda>d. [])
         \<lparr>arg_list = False, arg_image_path = [], arg_name = ''unc'',
          arg_option = [''upgrade=yes'']\<rparr> example_host
       = (ParserError ''unc'' (TypeError ''upgrade''), example_host)"
  by (simp add: sb_args_def Let_def lower_def lower_char_def call_distro_def str_arg_def
      bool_arg_def main_def call_app_def)

subsection \<open>The reader on well-formed release files\<close>







































subsection \<open>Iterating over the process names\<close>

text \<open>
  Python does not fix the order in which a set is iterated. The two loops over the
  process names give results that depend on the set of names only, so the order the
  model iterates in is immaterial.
\<close>

lemma unc_scan_set:
  "unc_scan names (hv, un) =
     (hv \<or> (\<exists>n \<in> set names. n \<noteq> ''unifi'' \<and> endswith n ''/haveged''),
      un \<or> ''unifi'' \<in> set names)"
proof (induction names arbitrary: hv un)
  case Nil
  then show ?case by simp
next
  case (Cons name names)
  show ?case
  proof (cases "name = ''unifi''")
    case True
    with Cons[of hv True] show ?thesis
      by (cases hv) (auto simp: Let_def)
  next
    case False
    show ?thesis
    proof (cases "endswith name ''/haveged''")
      case True
      with False Cons[of True un] show ?thesis
        by (cases un) (auto simp: Let_def)
    next
      case no: False
      with False Cons[of hv un] show ?thesis
        by (cases hv; cases un) (auto simp: Let_def)
    qed
  qed
qed

lemma hb_scan_set: "hb_scan names = (\<exists>n \<in> set names. contains n ''avahi-daemon:'')"
  by (induction names) simp_all

end
